theory Spec2Isabelle
  imports Main "HOL-Library.AList"
begin

section \<open>JavaScript values\<close>

text \<open>
  The three scripts of the Mini App (the telemetry client \<^verbatim>\<open>js/api.js\<close>, the bank
  loader \<^verbatim>\<open>js/banks.js\<close> and the redirect page \<^verbatim>\<open>redirect/redirect.js\<close>) work on
  plain JavaScript values: the Telegram context, the event payload and the
  extra-fields map are objects whose fields are read with \<^verbatim>\<open>||\<close> defaults.
  A value is modelled by its JSON shape. Strings are byte lists (UTF-8 for the
  Cyrillic literals), numbers are the integral ones, an object is its list of
  own properties in insertion order.
\<close>

datatype jsval =
    JUndefined
  | JNull
  | JBool bool
  | JNum int
  | JStr string
  | JObj "(string \<times> jsval) list"

type_synonym jsobj = "(string \<times> jsval) list"

text \<open>JavaScript truthiness: what \<^verbatim>\<open>!x\<close>, \<^verbatim>\<open>x || y\<close> and \<^verbatim>\<open>x ? a : b\<close> test.\<close>

fun truthy :: "jsval \<Rightarrow> bool" where
  "truthy JUndefined = False"
| "truthy JNull = False"
| "truthy (JBool b) = b"
| "truthy (JNum n) = (n \<noteq> 0)"
| "truthy (JStr s) = (s \<noteq> [])"
| "truthy (JObj ps) = True"

text \<open>\<^verbatim>\<open>a || b\<close> on values already computed.\<close>

definition js_or :: "jsval \<Rightarrow> jsval \<Rightarrow> jsval" where
  "js_or a b = (if truthy a then a else b)"

datatype exn =
    TypeError
  | SyntaxError
  | NetworkFailure
  | HttpError
  | SerializationError

text \<open>
  Property read \<^verbatim>\<open>v.k\<close>. Reading a property of \<^verbatim>\<open>undefined\<close> or \<^verbatim>\<open>null\<close>
  throws a TypeError; a missing property of an object is \<^verbatim>\<open>undefined\<close>; none of
  the property names the scripts read exists on a boolean, a number or a string,
  so there the read gives \<^verbatim>\<open>undefined\<close>.
\<close>

definition obj_get :: "jsobj \<Rightarrow> string \<Rightarrow> jsval" where
  "obj_get ps k = (case map_of ps k of None \<Rightarrow> JUndefined | Some v \<Rightarrow> v)"

fun get_prop :: "jsval \<Rightarrow> string \<Rightarrow> exn + jsval" where
  "get_prop JUndefined k = Inl TypeError"
| "get_prop JNull k = Inl TypeError"
| "get_prop (JObj ps) k = Inr (obj_get ps k)"
| "get_prop (JBool b) k = Inr JUndefined"
| "get_prop (JNum n) k = Inr JUndefined"
| "get_prop (JStr s) k = Inr JUndefined"

text \<open>Sequencing of computations that may throw: the first exception wins.\<close>

definition bind_exn :: "exn + 'a \<Rightarrow> ('a \<Rightarrow> exn + 'b) \<Rightarrow> exn + 'b" where
  "bind_exn m f = (case m of Inl e \<Rightarrow> Inl e | Inr x \<Rightarrow> f x)"

text \<open>
  \<^verbatim>\<open>Object.assign(target, ...sources)\<close> on plain objects: every own property of
  each source is written to the target, left to right; writing an existing key
  replaces its value in place, a new key is appended.
\<close>

definition object_assign :: "jsobj \<Rightarrow> jsobj list \<Rightarrow> jsobj" where
  "object_assign target sources =
     fold (\<lambda>src t. fold (\<lambda>(k, v) t'. AList.update k v t') src t) sources target"

section \<open>Observable effects\<close>

text \<open>
  What a script does besides returning is recorded as a list of effects, in
  program order. \<^verbatim>\<open>console.debug\<close> lines are identified by the place that writes
  them.
\<close>

datatype log_site =
    ApiNoBaseUrl
  | ApiSendFailed
  | ApiException
  | BankLoaderFallback
  | RedirectLoadError
  | RedirectDeeplinkError

datatype effect =
    ConsoleDebug log_site
  | HttpPost string jsobj
  | HttpGet string
  | SendRedirectEvent jsobj string string
  | SetStatusText string
  | SetFallbackHref string
  | AddClickListener string
  | SetTimeout nat nat
  | AddBlurListener nat
  | ClearTimeout nat
  | AssignHref string

type_synonym 'a io = "effect list \<times> (exn + 'a)"

text \<open>
  \<open>then_io\<close> runs a continuation on a normal result (statement sequencing, and
  \<^verbatim>\<open>promise.then(f)\<close>); \<open>catch_io\<close> runs a handler on a thrown one (a
  \<^verbatim>\<open>try/catch\<close> block, and \<^verbatim>\<open>promise.catch(g)\<close>). Effects made before the throw
  stay.
\<close>

definition then_io :: "'a io \<Rightarrow> ('a \<Rightarrow> 'b io) \<Rightarrow> 'b io" where
  "then_io m f =
     (case m of
        (es, Inl e) \<Rightarrow> (es, Inl e)
      | (es, Inr x) \<Rightarrow> (case f x of (es', r) \<Rightarrow> (es @ es', r)))"

definition catch_io :: "'a io \<Rightarrow> (exn \<Rightarrow> 'a io) \<Rightarrow> 'a io" where
  "catch_io m g =
     (case m of
        (es, Inl e) \<Rightarrow> (case g e of (es', r) \<Rightarrow> (es @ es', r))
      | (es, Inr x) \<Rightarrow> (es, Inr x))"

section \<open>Telemetry client (js/api.js)\<close>

definition API_BASE_URL :: string where
  "API_BASE_URL = ''http://localhost:8080/api/webapp''"

text \<open>The browser globals \<^verbatim>\<open>buildPayload\<close> reads: \<^verbatim>\<open>navigator\<close> and the clock.\<close>

record browser =
  userAgent :: jsval
  language :: jsval
  platform :: jsval
  now_iso :: string

text \<open>
  \<^verbatim>\<open>buildPayload(context, eventType, bankId, page, extra)\<close>. The property reads
  are made in the order of the source; \<open>extra\<close> is an object or omitted.
\<close>

definition buildPayload ::
  "browser \<Rightarrow> jsval \<Rightarrow> jsval \<Rightarrow> jsval \<Rightarrow> jsval \<Rightarrow> jsobj option \<Rightarrow> exn + jsobj" where
  "buildPayload nav context eventType bankId page extra =
     (let safeContext = js_or context (JObj []) in
      bind_exn (get_prop safeContext ''transferPayload'') (\<lambda>tp.
      let transferPayload = js_or tp (JObj []) in
      bind_exn (get_prop transferPayload ''payload'') (\<lambda>pl.
      let inlinePayload = js_or pl (JObj []) in
      bind_exn (get_prop safeContext ''startParam'') (\<lambda>sp.
      bind_exn (if truthy sp then Inr sp
                else bind_exn (get_prop safeContext ''initDataUnsafe'') (\<lambda>idu.
                     bind_exn (if truthy idu then get_prop idu ''start_param''
                               else Inr (JStr [])) (\<lambda>x.
                     Inr (js_or x (JStr []))))) (\<lambda>transfer_id.
      bind_exn (get_prop inlinePayload ''creator_tg_user_id'') (\<lambda>creator.
      bind_exn (get_prop inlinePayload ''generated_at'') (\<lambda>generated.
      bind_exn (get_prop inlinePayload ''parsed'') (\<lambda>parsed.
      bind_exn (get_prop inlinePayload ''option'') (\<lambda>opt.
      bind_exn (get_prop safeContext ''initData'') (\<lambda>initData.
      bind_exn (get_prop safeContext ''initDataUnsafe'') (\<lambda>initDataUnsafe.
      let basePayload =
            [(''transfer_id'', transfer_id),
             (''transfer_payload'', transferPayload),
             (''inline_creator_tg_user_id'', js_or creator JNull),
             (''inline_generated_at'', js_or generated (JStr [])),
             (''inline_parsed'', js_or parsed (JObj [])),
             (''inline_option'', js_or opt (JObj [])),
             (''event_type'', eventType),
             (''ts'', JStr (now_iso nav)),
             (''initData'', js_or initData (JStr [])),
             (''initDataUnsafe'', js_or initDataUnsafe (JObj [])),
             (''userAgent'', js_or (userAgent nav) (JStr [])),
             (''language'', js_or (language nav) (JStr [])),
             (''platform'', js_or (platform nav) (JStr [])),
             (''page'', page),
             (''bank_id'', js_or bankId (JStr []))]
      in Inr (object_assign [] [basePayload, (case extra of None \<Rightarrow> [] | Some ex \<Rightarrow> ex)]))))))))))))"

text \<open>
  What the network layer does with one request, chosen by the environment:
  \<^verbatim>\<open>JSON.stringify\<close> may throw, the call of \<^verbatim>\<open>fetch\<close> may throw, and the promise
  \<^verbatim>\<open>fetch\<close> returns is fulfilled or rejected.
\<close>

record network =
  stringify_throws :: bool
  fetch_throws :: bool
  fetch_rejects :: bool

text \<open>
  The endpoint is an optional string: \<^verbatim>\<open>!API_BASE_URL\<close> holds when it is absent or
  empty.
\<close>

fun url_missing :: "string option \<Rightarrow> bool" where
  "url_missing None = True"
| "url_missing (Some u) = (u = [])"

definition start_fetch :: "network \<Rightarrow> string \<Rightarrow> jsobj \<Rightarrow> unit io" where
  "start_fetch net url jsonBody =
     (if stringify_throws net then ([], Inl SerializationError)
      else if fetch_throws net then ([], Inl TypeError)
      else ([HttpPost url jsonBody], Inr ()))"

text \<open>\<^verbatim>\<open>safePost(jsonBody)\<close>, up to its return.\<close>

definition safePost :: "string option \<Rightarrow> network \<Rightarrow> jsobj \<Rightarrow> unit io" where
  "safePost base net jsonBody =
     (case base of
        None \<Rightarrow> ([ConsoleDebug ApiNoBaseUrl], Inr ())
      | Some url \<Rightarrow>
          if url = [] then ([ConsoleDebug ApiNoBaseUrl], Inr ())
          else catch_io (start_fetch net url jsonBody)
                 (\<lambda>error. ([ConsoleDebug ApiException], Inr ())))"

text \<open>
  The promise chain \<^verbatim>\<open>fetch(...).then(...).catch(...)\<close> that \<^verbatim>\<open>safePost\<close> leaves
  behind, settled later: \<open>None\<close> when no request was started.
\<close>

definition safePost_settled :: "string option \<Rightarrow> network \<Rightarrow> jsval io option" where
  "safePost_settled base net =
     (if url_missing base \<or> stringify_throws net \<or> fetch_throws net then None
      else Some (catch_io
                  (then_io (if fetch_rejects net then ([], Inl NetworkFailure) else ([], Inr JUndefined))
                     (\<lambda>response. ([], Inr JNull)))
                  (\<lambda>error. ([ConsoleDebug ApiSendFailed], Inr JUndefined))))"

definition lift_exn :: "exn + 'a \<Rightarrow> 'a io" where
  "lift_exn r = ([], r)"

definition sendWebAppOpen :: "string option \<Rightarrow> browser \<Rightarrow> network \<Rightarrow> jsval \<Rightarrow> unit io" where
  "sendWebAppOpen base nav net context =
     then_io (lift_exn (buildPayload nav context (JStr ''webapp_open'') (JStr []) (JStr ''miniapp'') None))
       (\<lambda>payload. safePost base net payload)"

definition sendBankClick :: "string option \<Rightarrow> browser \<Rightarrow> network \<Rightarrow> jsval \<Rightarrow> jsval \<Rightarrow> unit io" where
  "sendBankClick base nav net context bankId =
     then_io (lift_exn (buildPayload nav context (JStr ''bank_click'') bankId (JStr ''miniapp'') None))
       (\<lambda>payload. safePost base net payload)"

definition sendRedirectEvent ::
  "string option \<Rightarrow> browser \<Rightarrow> network \<Rightarrow> jsval \<Rightarrow> jsval \<Rightarrow> jsval \<Rightarrow> jsval \<Rightarrow> unit io" where
  "sendRedirectEvent base nav net context bankId eventType pageOverride =
     then_io (lift_exn (buildPayload nav context (js_or eventType (JStr ''redirect_open'')) bankId
                          (js_or pageOverride (JStr ''redirect'')) None))
       (\<lambda>payload. safePost base net payload)"

section \<open>Bank directory (js/banks.js)\<close>

text \<open>
  A bank descriptor as the directory resource and the built-in list give it.
  The descriptor the redirect page makes up for an unknown bank has no
  \<^verbatim>\<open>logo\<close>, so that field is optional.
\<close>

record bank =
  id' :: string
  title :: string
  logo :: "string option"
  deeplink :: string
  fallback_url :: string

text \<open>
  What \<^verbatim>\<open>fetch\<close> answers: the promise is rejected, or fulfilled with a response
  that has a status flag \<^verbatim>\<open>ok\<close> and a body that \<^verbatim>\<open>response.json()\<close> parses or
  rejects. A body that parses is taken to be an array of descriptors.
\<close>

record response =
  ok :: bool
  json :: "exn + bank list"

text \<open>\<^verbatim>\<open>haystack.includes(needle)\<close> on strings.\<close>

fun starts_with :: "string \<Rightarrow> string \<Rightarrow> bool" where
  "starts_with s [] = True"
| "starts_with [] (c # cs) = False"
| "starts_with (d # ds) (c # cs) = (d = c \<and> starts_with ds cs)"

fun str_includes :: "string \<Rightarrow> string \<Rightarrow> bool" where
  "str_includes [] needle = (needle = [])"
| "str_includes (c # cs) needle = (starts_with (c # cs) needle \<or> str_includes cs needle)"

definition configPath :: "string \<Rightarrow> string" where
  "configPath pathname =
     (if str_includes pathname ''/redirect/'' then ''../config/banks.json''
      else ''./config/banks.json'')"

text \<open>The static list of the \<^verbatim>\<open>catch\<close> handler, titles in UTF-8.\<close>

definition fallback_banks :: "bank list" where
  "fallback_banks =
     [\<lparr>id' = ''sber'',
       title = [CHR 0xD0, CHR 0xA1, CHR 0xD0, CHR 0xB1, CHR 0xD0, CHR 0xB5, CHR 0xD1, CHR 0x80, CHR 0xD0, CHR 0xB1, CHR 0xD0, CHR 0xB0, CHR 0xD0, CHR 0xBD, CHR 0xD0, CHR 0xBA],
       logo = Some ''assets/img/banks/sber.png'',
       deeplink = ''https://www.sberbank.com/sms/pbpn?requisiteNumber=79309791051'',
       fallback_url = ''https://www.sberbank.com/sms/pbpn?requisiteNumber=79309791051''\<rparr>,
      \<lparr>id' = ''alfabank'',
       title = [CHR 0xD0, CHR 0x90, CHR 0xD0, CHR 0xBB, CHR 0xD1, CHR 0x8C, CHR 0xD1, CHR 0x84, CHR 0xD0, CHR 0xB0, CHR 0x2D, CHR 0xD0, CHR 0x91, CHR 0xD0, CHR 0xB0, CHR 0xD0, CHR 0xBD, CHR 0xD0, CHR 0xBA],
       logo = Some ''assets/img/banks/alfabank.png'',
       deeplink = ''alfabank://account'',
       fallback_url = ''https://web.alfabank.ru/dashboard''\<rparr>,
      \<lparr>id' = ''tbank'',
       title = [CHR 0xD0, CHR 0xA2, CHR 0x2D, CHR 0xD0, CHR 0x91, CHR 0xD0, CHR 0xB0, CHR 0xD0, CHR 0xBD, CHR 0xD0, CHR 0xBA],
       logo = Some ''assets/img/banks/tbank.png'',
       deeplink = ''tbank://main'',
       fallback_url = ''https://www.tbank.ru/mybank/''\<rparr>,
      \<lparr>id' = ''rshb'',
       title = [CHR 0xD0, CHR 0xA0, CHR 0xD0, CHR 0xBE, CHR 0xD1, CHR 0x81, CHR 0xD1, CHR 0x81, CHR 0xD0, CHR 0xB5, CHR 0xD0, CHR 0xBB, CHR 0xD1, CHR 0x8C, CHR 0xD1, CHR 0x85, CHR 0xD0, CHR 0xBE, CHR 0xD0, CHR 0xB7, CHR 0xD0, CHR 0xB1, CHR 0xD0, CHR 0xB0, CHR 0xD0, CHR 0xBD, CHR 0xD0, CHR 0xBA],
       logo = Some ''assets/img/banks/rshb.png'',
       deeplink = ''rshbmbfl://'',
       fallback_url = ''https://online.rshb.ru/cas-auth/index?forceAuth=true''\<rparr>,
      \<lparr>id' = ''gazprombank'',
       title = [CHR 0xD0, CHR 0x93, CHR 0xD0, CHR 0xB0, CHR 0xD0, CHR 0xB7, CHR 0xD0, CHR 0xBF, CHR 0xD1, CHR 0x80, CHR 0xD0, CHR 0xBE, CHR 0xD0, CHR 0xBC, CHR 0xD0, CHR 0xB1, CHR 0xD0, CHR 0xB0, CHR 0xD0, CHR 0xBD, CHR 0xD0, CHR 0xBA],
       logo = Some ''assets/img/banks/gazprombank.png'',
       deeplink = ''gpbapp://'',
       fallback_url = ''https://ib.online.gpb.ru/''\<rparr>,
      \<lparr>id' = ''psb'',
       title = [CHR 0xD0, CHR 0x9F, CHR 0xD0, CHR 0xA1, CHR 0xD0, CHR 0x91],
       logo = Some ''assets/img/banks/psb.png'',
       deeplink = ''psbmobile://auth/accounts'',
       fallback_url = ''https://ib.psbank.ru/settings''\<rparr>,
      \<lparr>id' = ''mkb'',
       title = [CHR 0xD0, CHR 0x9C, CHR 0xD0, CHR 0x9A, CHR 0xD0, CHR 0x91],
       logo = Some ''assets/img/banks/mkb.png'',
       deeplink = ''mkb2://deeplink'',
       fallback_url = ''https://online.mkb.ru/login''\<rparr>,
      \<lparr>id' = ''vtb'',
       title = [CHR 0xD0, CHR 0x92, CHR 0xD0, CHR 0xA2, CHR 0xD0, CHR 0x91],
       logo = Some ''assets/img/banks/vtb.png'',
       deeplink = ''vtb://vtb.ru/i/'',
       fallback_url = ''https://online.vtb.ru/login''\<rparr>,
      \<lparr>id' = ''mtsbank'',
       title = [CHR 0xD0, CHR 0x9C, CHR 0xD0, CHR 0xA2, CHR 0xD0, CHR 0xA1, CHR 0x20, CHR 0xD0, CHR 0x91, CHR 0xD0, CHR 0xB0, CHR 0xD0, CHR 0xBD, CHR 0xD0, CHR 0xBA],
       logo = Some ''assets/img/banks/mtsbank.png'',
       deeplink = ''mtsmoney://'',
       fallback_url = ''https://sso.mtsbank.ru/login/mtsmoney/auth/''\<rparr>,
      \<lparr>id' = ''pochtabank'',
       title = [CHR 0xD0, CHR 0x9F, CHR 0xD0, CHR 0xBE, CHR 0xD1, CHR 0x87, CHR 0xD1, CHR 0x82, CHR 0xD0, CHR 0xB0, CHR 0x20, CHR 0xD0, CHR 0x91, CHR 0xD0, CHR 0xB0, CHR 0xD0, CHR 0xBD, CHR 0xD0, CHR 0xBA],
       logo = Some ''assets/img/banks/pochtabank.png'',
       deeplink = ''bank100000000016://sbpay'',
       fallback_url = ''https://my.pochtabank.ru/login''\<rparr>,
      \<lparr>id' = ''sovcombank'',
       title = [CHR 0xD0, CHR 0xA1, CHR 0xD0, CHR 0xBE, CHR 0xD0, CHR 0xB2, CHR 0xD0, CHR 0xBA, CHR 0xD0, CHR 0xBE, CHR 0xD0, CHR 0xBC, CHR 0xD0, CHR 0xB1, CHR 0xD0, CHR 0xB0, CHR 0xD0, CHR 0xBD, CHR 0xD0, CHR 0xBA],
       logo = Some ''assets/img/banks/sovcombank.png'',
       deeplink = ''ompshared://'',
       fallback_url = ''https://bk.sovcombank.ru/ru/html/login.html''\<rparr>]"

text \<open>
  \<^verbatim>\<open>loadBanks()\<close>: the settlement of the promise it returns, with the effects made
  on the way. The request goes to \<open>configPath\<close> resolved against the page's
  address.
\<close>

definition loadBanks :: "string \<Rightarrow> exn + response \<Rightarrow> bank list io" where
  "loadBanks pathname answer =
     catch_io
       (then_io ([HttpGet (configPath pathname)], answer)
          (\<lambda>response.
             if \<not> ok response then ([], Inl HttpError)
             else ([], json response)))
       (\<lambda>error. ([ConsoleDebug BankLoaderFallback], Inr fallback_banks))"

section \<open>Redirect page (redirect/redirect.js)\<close>

text \<open>
  The state of one page view: the context object the bridge returned, the
  effects so far, the pending timeouts (handle and the descriptor the callback
  closes over), the next free timer handle, the once-only \<^verbatim>\<open>blur\<close> listeners
  (each closes over a timer handle) and the \<^verbatim>\<open>click\<close> listeners of the manual
  link (each closes over a bank id).
\<close>

record page =
  telegramContext :: jsobj
  trace :: "effect list"
  timers :: "(nat \<times> bank) list"
  next_timer :: nat
  blur_once :: "nat list"
  click_listeners :: "string list"

definition emit :: "effect \<Rightarrow> page \<Rightarrow> page" where
  "emit e s = s\<lparr>trace := trace s @ [e]\<rparr>"

text \<open>
  \<^verbatim>\<open>window.location.href = url\<close>. The effect records that the assignment was
  executed; whether it throws is the browser's answer for that URL.
\<close>

definition assign_href :: "(string \<Rightarrow> bool) \<Rightarrow> string \<Rightarrow> page \<Rightarrow> (exn + unit) \<times> page" where
  "assign_href throws url s =
     (if throws url then Inl SyntaxError else Inr (), emit (AssignHref url) s)"

text \<open>\<^verbatim>\<open>URLSearchParams.get(name) || ''\<close>: the first value of the name, or empty.\<close>

definition query_get :: "(string \<times> string) list \<Rightarrow> string \<Rightarrow> string" where
  "query_get query name = (case map_of query name of None \<Rightarrow> [] | Some v \<Rightarrow> v)"

definition status_prefix :: string where
  "status_prefix = [CHR 0xD0, CHR 0x9E, CHR 0xD1, CHR 0x82, CHR 0xD0, CHR 0xBA, CHR 0xD1, CHR 0x80, CHR 0xD1, CHR 0x8B, CHR 0xD0, CHR 0xB2, CHR 0xD0, CHR 0xB0, CHR 0xD0, CHR 0xB5, CHR 0xD0, CHR 0xBC, CHR 0x20, CHR 0xD0, CHR 0xB1, CHR 0xD0, CHR 0xB0, CHR 0xD0, CHR 0xBD, CHR 0xD0, CHR 0xBA, CHR 0x3A, CHR 0x20]"

definition status_suffix :: string where
  "status_suffix = [CHR 0xE2, CHR 0x80, CHR 0xA6]"

text \<open>
  \<^verbatim>\<open>updateUi(bank)\<close>; the status and link elements exist (the page's markup has
  them).
\<close>

definition updateUi :: "bank \<Rightarrow> page \<Rightarrow> page" where
  "updateUi bank s =
     (let s1 = emit (SetStatusText (status_prefix @ title bank @ status_suffix)) s;
          s2 = emit (SetFallbackHref
                       (if fallback_url bank \<noteq> [] then fallback_url bank
                        else if deeplink bank \<noteq> [] then deeplink bank
                        else ''#'')) s1
      in emit (AddClickListener (id' bank))
           (s2\<lparr>click_listeners := click_listeners s2 @ [id' bank]\<rparr>))"

definition switchToFallback :: "(string \<Rightarrow> bool) \<Rightarrow> bank \<Rightarrow> page \<Rightarrow> (exn + unit) \<times> page" where
  "switchToFallback throws bank s =
     (let s1 = emit (SendRedirectEvent (telegramContext s) (id' bank) ''redirect_fallback'') s
      in if fallback_url bank \<noteq> [] then assign_href throws (fallback_url bank) s1
         else (Inr (), s1))"

definition tryOpenBank :: "(string \<Rightarrow> bool) \<Rightarrow> bank \<Rightarrow> page \<Rightarrow> (exn + unit) \<times> page" where
  "tryOpenBank throws bank s =
     (let s1 = emit (SendRedirectEvent (telegramContext s) (id' bank) ''redirect_attempt'') s
      in if deeplink bank = [] then switchToFallback throws bank s1
         else
           let fallbackTimer = next_timer s1;
               s2 = emit (SetTimeout fallbackTimer 1100)
                      (s1\<lparr>timers := timers s1 @ [(fallbackTimer, bank)],
                          next_timer := Suc fallbackTimer\<rparr>);
               s3 = emit (AddBlurListener fallbackTimer)
                      (s2\<lparr>blur_once := blur_once s2 @ [fallbackTimer]\<rparr>)
           in case assign_href throws (deeplink bank) s3 of
                (Inr u, s4) \<Rightarrow> (Inr u, s4)
              | (Inl error, s4) \<Rightarrow>
                  switchToFallback throws bank (emit (ConsoleDebug RedirectDeeplinkError) s4))"

text \<open>
  The descriptor made up when nothing else is available. The source writes the
  same literal twice: in the \<^verbatim>\<open>then\<close> handler (lines 17-22) and as
  \<^verbatim>\<open>fallbackBank\<close> in the \<^verbatim>\<open>catch\<close> handler (lines 29-34).
\<close>

definition fallbackBank :: "string \<Rightarrow> bank" where
  "fallbackBank bankId =
     \<lparr>id' = (if bankId \<noteq> [] then bankId else ''unknown''),
      title = [CHR 0xD0, CHR 0x92, CHR 0xD0, CHR 0xB0, CHR 0xD1, CHR 0x88, CHR 0x20, CHR 0xD0, CHR 0xB1, CHR 0xD0, CHR 0xB0, CHR 0xD0, CHR 0xBD, CHR 0xD0, CHR 0xBA],
      logo = None,
      deeplink = [],
      fallback_url = ''https://www.google.com''\<rparr>"

text \<open>
  \<^verbatim>\<open>banks.find(bank => bank.id === bankId) || banks[0] || {...}\<close>: a descriptor
  is an object, hence truthy, so each \<^verbatim>\<open>||\<close> falls through exactly when its left
  side is \<^verbatim>\<open>undefined\<close>.
\<close>

definition targetBank :: "string \<Rightarrow> bank list \<Rightarrow> bank" where
  "targetBank bankId banks =
     (case find (\<lambda>bank. id' bank = bankId) banks of
        Some b \<Rightarrow> b
      | None \<Rightarrow> (case banks of b # rest \<Rightarrow> b | [] \<Rightarrow> fallbackBank bankId))"

definition then_handler :: "(string \<Rightarrow> bool) \<Rightarrow> string \<Rightarrow> bank list \<Rightarrow> page \<Rightarrow> (exn + unit) \<times> page" where
  "then_handler throws bankId banks s =
     tryOpenBank throws (targetBank bankId banks) (updateUi (targetBank bankId banks) s)"

definition catch_handler :: "(string \<Rightarrow> bool) \<Rightarrow> string \<Rightarrow> page \<Rightarrow> (exn + unit) \<times> page" where
  "catch_handler throws bankId s =
     tryOpenBank throws (fallbackBank bankId)
       (updateUi (fallbackBank bankId) (emit (ConsoleDebug RedirectLoadError) s))"

text \<open>
  The \<^verbatim>\<open>DOMContentLoaded\<close> handler up to the call of \<^verbatim>\<open>loadBanks()\<close>: the query is
  parsed, the context is taken from the bridge, its \<^verbatim>\<open>startParam\<close> is assigned,
  and \<^verbatim>\<open>redirect_open\<close> is sent.
\<close>

definition backfill :: "jsobj \<Rightarrow> string \<Rightarrow> jsobj" where
  "backfill context transferId =
     AList.update ''startParam'' (js_or (obj_get context ''startParam'') (JStr transferId)) context"

definition on_ready :: "(string \<times> string) list \<Rightarrow> jsobj \<Rightarrow> page" where
  "on_ready query context =
     (let transferId = query_get query ''transfer_id'';
          bankId = query_get query ''bank_id'';
          telegramContext = backfill context transferId
      in \<lparr>telegramContext = telegramContext,
          trace = [SendRedirectEvent telegramContext bankId ''redirect_open''],
          timers = [], next_timer = 0, blur_once = [], click_listeners = []\<rparr>)"

text \<open>
  The whole handler once the directory promise has settled:
  \<^verbatim>\<open>loadBanks().then(...).catch(...)\<close>. The \<^verbatim>\<open>catch\<close> handler also runs when the
  \<^verbatim>\<open>then\<close> handler throws; what the \<^verbatim>\<open>catch\<close> handler throws is dropped.
\<close>

definition page_view ::
  "(string \<Rightarrow> bool) \<Rightarrow> string \<Rightarrow> (string \<times> string) list \<Rightarrow> jsobj \<Rightarrow> exn + response \<Rightarrow> page" where
  "page_view throws pathname query context answer =
     (let bankId = query_get query ''bank_id'';
          s0 = on_ready query context
      in case loadBanks pathname answer of
           (effects, Inr banks) \<Rightarrow>
             (case then_handler throws bankId banks (s0\<lparr>trace := trace s0 @ effects\<rparr>) of
                (Inr u, s1) \<Rightarrow> s1
              | (Inl error, s1) \<Rightarrow> snd (catch_handler throws bankId s1))
         | (effects, Inl error) \<Rightarrow>
             snd (catch_handler throws bankId (s0\<lparr>trace := trace s0 @ effects\<rparr>)))"

text \<open>
  What can happen afterwards: the window loses focus, a pending timeout elapses,
  the user clicks the manual link. A timeout that is not pending cannot elapse.
\<close>

datatype event = Blur | TimerElapsed nat | ManualClick

definition clearTimeout :: "nat \<Rightarrow> page \<Rightarrow> page" where
  "clearTimeout h s =
     emit (ClearTimeout h) (s\<lparr>timers := filter (\<lambda>(h', b). h' \<noteq> h) (timers s)\<rparr>)"

definition on_blur :: "page \<Rightarrow> page" where
  "on_blur s = fold clearTimeout (blur_once s) (s\<lparr>blur_once := []\<rparr>)"

definition on_timer :: "(string \<Rightarrow> bool) \<Rightarrow> nat \<Rightarrow> page \<Rightarrow> page" where
  "on_timer throws h s =
     (case map_of (timers s) h of
        None \<Rightarrow> s
      | Some bank \<Rightarrow>
          snd (switchToFallback throws bank
                 (s\<lparr>timers := filter (\<lambda>(h', b). h' \<noteq> h) (timers s)\<rparr>)))"

definition on_click :: "page \<Rightarrow> page" where
  "on_click s =
     fold (\<lambda>bankId s'. emit (SendRedirectEvent (telegramContext s') bankId ''redirect_manual_click'') s')
       (click_listeners s) s"

fun step :: "(string \<Rightarrow> bool) \<Rightarrow> event \<Rightarrow> page \<Rightarrow> page" where
  "step throws Blur s = on_blur s"
| "step throws (TimerElapsed h) s = on_timer throws h s"
| "step throws ManualClick s = on_click s"

definition run :: "(string \<Rightarrow> bool) \<Rightarrow> event list \<Rightarrow> page \<Rightarrow> page" where
  "run throws events s = fold (step throws) events s"

section \<open>Vocabulary of the properties\<close>

text \<open>
  A read that never throws: the property of an object, \<^verbatim>\<open>undefined\<close> for
  anything else. It names "the field of the context, when present".
\<close>

definition field :: "jsval \<Rightarrow> string \<Rightarrow> jsval" where
  "field v k = (case v of JObj ps \<Rightarrow> obj_get ps k | _ \<Rightarrow> JUndefined)"

text \<open>
  The resolution order of \<^verbatim>\<open>transfer_id\<close> in the words of the specification:
  the explicit start parameter when non-empty, otherwise
  \<^verbatim>\<open>initDataUnsafe.start_param\<close> when present and non-empty, otherwise the empty
  string.
\<close>

definition spec_transfer_id :: "jsval \<Rightarrow> jsval" where
  "spec_transfer_id context =
     (let startParam = field context ''startParam'';
          start_param = field (field context ''initDataUnsafe'') ''start_param''
      in if truthy startParam then startParam
         else if truthy start_param then start_param
         else JStr [])"

text \<open>The payload object of an inline message, when the context carries one.\<close>

definition inline_payload :: "jsval \<Rightarrow> jsval" where
  "inline_payload context = field (field context ''transferPayload'') ''payload''"

text \<open>
  The base record of an event in closed form: every documented field with its
  default, written with reads that cannot throw.
\<close>

definition spec_base_payload :: "browser \<Rightarrow> jsval \<Rightarrow> jsval \<Rightarrow> jsval \<Rightarrow> jsval \<Rightarrow> jsobj" where
  "spec_base_payload nav context eventType bankId page =
     (let inline = field (field context ''transferPayload'') ''payload'' in
      [(''transfer_id'', spec_transfer_id context),
       (''transfer_payload'', js_or (field context ''transferPayload'') (JObj [])),
       (''inline_creator_tg_user_id'', js_or (field inline ''creator_tg_user_id'') JNull),
       (''inline_generated_at'', js_or (field inline ''generated_at'') (JStr [])),
       (''inline_parsed'', js_or (field inline ''parsed'') (JObj [])),
       (''inline_option'', js_or (field inline ''option'') (JObj [])),
       (''event_type'', eventType),
       (''ts'', JStr (now_iso nav)),
       (''initData'', js_or (field context ''initData'') (JStr [])),
       (''initDataUnsafe'', js_or (field context ''initDataUnsafe'') (JObj [])),
       (''userAgent'', js_or (userAgent nav) (JStr [])),
       (''language'', js_or (language nav) (JStr [])),
       (''platform'', js_or (platform nav) (JStr [])),
       (''page'', page),
       (''bank_id'', js_or bankId (JStr []))])"

definition payload_fields :: "string list" where
  "payload_fields =
     [''transfer_id'', ''transfer_payload'', ''inline_creator_tg_user_id'', ''inline_generated_at'',
      ''inline_parsed'', ''inline_option'', ''event_type'', ''ts'', ''initData'', ''initDataUnsafe'',
      ''userAgent'', ''language'', ''platform'', ''page'', ''bank_id'']"

definition extra_fields :: "jsobj option \<Rightarrow> jsobj" where
  "extra_fields extra = (case extra of None \<Rightarrow> [] | Some ex \<Rightarrow> ex)"

text \<open>A browser to evaluate examples in.\<close>

definition example_browser :: browser where
  "example_browser = \<lparr>userAgent = JStr ''Mozilla/5.0'', language = JStr ''ru'', platform = JUndefined, now_iso = ''2024-01-01T00:00:00.000Z''\<rparr>"

definition example_network :: network where
  "example_network = \<lparr>stringify_throws = False, fetch_throws = False, fetch_rejects = True\<rparr>"

definition example_context :: jsval where
  "example_context =
     JObj [(''startParam'', JStr []),
           (''initDataUnsafe'', JObj [(''start_param'', JStr ''tg42'')])]"

text \<open>The three public operations of the telemetry client, called once each.\<close>

definition telemetry_calls :: "string option \<Rightarrow> browser \<Rightarrow> network \<Rightarrow> jsval \<Rightarrow> jsval \<Rightarrow> jsval \<Rightarrow> jsval \<Rightarrow> unit io list" where
  "telemetry_calls base nav net context bankId eventType pageOverride =
     [sendWebAppOpen base nav net context,
      sendBankClick base nav net context bankId,
      sendRedirectEvent base nav net context bankId eventType pageOverride]"

text \<open>
  The answers of the directory request that count as failed: a network error,
  a status outside 2xx, a body that does not parse.
\<close>

definition directory_failure :: "exn + response \<Rightarrow> bool" where
  "directory_failure answer =
     (case answer of
        Inl network_error \<Rightarrow> True
      | Inr response \<Rightarrow> \<not> ok response \<or> (case json response of Inl parse_error \<Rightarrow> True | Inr banks \<Rightarrow> False))"

text \<open>The ids of the built-in list, in order.\<close>

definition fallback_ids :: "string list" where
  "fallback_ids = [''sber'', ''alfabank'', ''tbank'', ''rshb'', ''gazprombank'', ''psb'', ''mkb'',
                   ''vtb'', ''mtsbank'', ''pochtabank'', ''sovcombank'']"

text \<open>A two-entry directory to evaluate examples in.\<close>

definition example_banks :: "bank list" where
  "example_banks =
     [\<lparr>id' = ''alfabank'', title = ''Alfa'', logo = None, deeplink = ''alfabank://account'',
       fallback_url = ''https://web.alfabank.ru/dashboard''\<rparr>,
      \<lparr>id' = ''vtb'', title = ''VTB'', logo = None, deeplink = ''vtb://vtb.ru/i/'',
       fallback_url = ''https://online.vtb.ru/login''\<rparr>]"

text \<open>
  What one run of \<^verbatim>\<open>switchToFallback(bank)\<close> adds to the trace: the
  \<^verbatim>\<open>redirect_fallback\<close> event, then the assignment of the fallback URL when the
  descriptor has one.
\<close>

definition fallback_step :: "jsobj \<Rightarrow> bank \<Rightarrow> effect list" where
  "fallback_step context bank =
     SendRedirectEvent context (id' bank) ''redirect_fallback'' #
     (if fallback_url bank \<noteq> [] then [AssignHref (fallback_url bank)] else [])"

text \<open>
  What \<^verbatim>\<open>tryOpenBank(bank)\<close> adds for a descriptor with a deep link, up to the
  assignment of the deep link: the \<^verbatim>\<open>redirect_attempt\<close> event, the timeout of
  1100 ms, the \<^verbatim>\<open>blur\<close> listener, the assignment.
\<close>

definition deeplink_attempt :: "jsobj \<Rightarrow> nat \<Rightarrow> bank \<Rightarrow> effect list" where
  "deeplink_attempt context h bank =
     [SendRedirectEvent context (id' bank) ''redirect_attempt'',
      SetTimeout h 1100,
      AddBlurListener h,
      AssignHref (deeplink bank)]"

text \<open>The target of the manual link: \<^verbatim>\<open>bank.fallback_url || bank.deeplink || '#'\<close>.\<close>

definition manual_link :: "bank \<Rightarrow> string" where
  "manual_link bank =
     (if fallback_url bank \<noteq> [] then fallback_url bank
      else if deeplink bank \<noteq> [] then deeplink bank
      else ''#'')"

text \<open>
  Effects that are neither a fallback nor a navigation: a cleared timeout and
  the telemetry of a manual click.
\<close>

definition quiet :: "effect \<Rightarrow> bool" where
  "quiet e =
     (case e of
        ClearTimeout h \<Rightarrow> True
      | SendRedirectEvent context bankId eventType \<Rightarrow> eventType = ''redirect_manual_click''
      | _ \<Rightarrow> False)"

definition is_navigation :: "effect \<Rightarrow> bool" where
  "is_navigation e = (case e of AssignHref url \<Rightarrow> True | _ \<Rightarrow> False)"

definition is_fallback_event :: "effect \<Rightarrow> bool" where
  "is_fallback_event e =
     (case e of
        SendRedirectEvent context bankId eventType \<Rightarrow> eventType = ''redirect_fallback''
      | _ \<Rightarrow> False)"

text \<open>Event sequences in which the user only clicks the manual link.\<close>

definition only_clicks :: "event list \<Rightarrow> bool" where
  "only_clicks events = list_all (\<lambda>e. e = ManualClick) events"

text \<open>
  Browsers, descriptors and a page to evaluate examples in: a browser in which
  no assignment of the address throws and one in which a given URL does; a
  descriptor with a deep link and no fallback URL; the built-in descriptor of
  \<^verbatim>\<open>vtb\<close>; the page right after \<^verbatim>\<open>redirect_open\<close> was sent.
\<close>

definition never_throws :: "string \<Rightarrow> bool" where
  "never_throws url = False"

definition throws_on :: "string \<Rightarrow> string \<Rightarrow> bool" where
  "throws_on bad url = (url = bad)"

definition bank_without_fallback :: bank where
  "bank_without_fallback =
     \<lparr>id' = ''demo'', title = ''Demo'', logo = None, deeplink = ''demo://open'', fallback_url = []\<rparr>"

definition bank_vtb :: bank where
  "bank_vtb =
     \<lparr>id' = ''vtb'', title = ''VTB'', logo = Some ''assets/img/banks/vtb.png'',
      deeplink = ''vtb://vtb.ru/i/'', fallback_url = ''https://online.vtb.ru/login''\<rparr>"

definition fresh_page :: page where
  "fresh_page = on_ready [(''transfer_id'', ''t1''), (''bank_id'', ''vtb'')] []"

section \<open>Reads and defaults\<close>

lemma get_prop_truthy: "truthy v \<Longrightarrow> get_prop v k = Inr (field v k)"
  by (cases v) (simp_all add: field_def)

lemma field_falsy: "\<not> truthy v \<Longrightarrow> field v k = JUndefined"
  by (cases v) (simp_all add: field_def)

lemma get_prop_or_obj: "get_prop (js_or v (JObj [])) k = Inr (field v k)"
  by (cases v) (simp_all add: js_or_def field_def obj_get_def)

lemma bind_exn_Inr: "bind_exn (Inr x) f = f x"
  by (simp add: bind_exn_def)

lemma js_or_truthy: "truthy a \<Longrightarrow> js_or a b = a"
  by (simp add: js_or_def)

lemma js_or_falsy: "\<not> truthy a \<Longrightarrow> js_or a b = b"
  by (simp add: js_or_def)

section \<open>Object.assign\<close>

lemma map_of_fold_update:
  "map_of (fold (\<lambda>(k, v) t'. AList.update k v t') src t) = map_of t ++ map_of (rev src)"
  by (induction src arbitrary: t)
     (auto simp: AList.update_conv' fun_eq_iff map_add_def split: option.splits)

lemma map_of_rev_distinct: "distinct (map fst xs) \<Longrightarrow> map_of (rev xs) = map_of xs"
proof (induction xs)
  case Nil
  show ?case by simp
next
  case (Cons a xs)
  obtain k v where a: "a = (k, v)" by (cases a)
  from Cons.prems a have none: "map_of xs k = None"
    by (simp add: map_of_eq_None_iff)
  from Cons have ih: "map_of (rev xs) = map_of xs" by simp
  show ?case
  proof
    fix x
    show "map_of (rev (a # xs)) x = map_of (a # xs) x"
      using none by (cases "map_of xs x") (auto simp: a ih map_add_def)
  qed
qed

lemma object_assign_lookup:
  "map_of (object_assign [] [base, ex]) k =
     (case map_of (rev ex) k of Some v \<Rightarrow> Some v | None \<Rightarrow> map_of (rev base) k)"
  by (simp add: object_assign_def map_of_fold_update map_add_def)

lemma object_assign_keys: "fst ` set base \<subseteq> fst ` set (object_assign [] [base, ex])"
proof
  fix k assume "k \<in> fst ` set base"
  then have "k \<in> dom (map_of (rev base))"
    by (simp add: dom_map_of_conv_image_fst)
  then have "k \<in> dom (map_of (object_assign [] [base, ex]))"
    by (auto simp: object_assign_lookup domIff split: option.splits)
  then show "k \<in> fst ` set (object_assign [] [base, ex])"
    by (simp add: dom_map_of_conv_image_fst)
qed

section \<open>The event payload\<close>

lemma buildPayload_closed:
  "buildPayload nav context eventType bankId page extra =
     Inr (object_assign [] [spec_base_payload nav context eventType bankId page,
                            (case extra of None \<Rightarrow> [] | Some ex \<Rightarrow> ex)])"
  unfolding buildPayload_def Let_def
  by (simp add: get_prop_or_obj bind_exn_Inr get_prop_truthy js_or_truthy js_or_falsy field_falsy
        spec_base_payload_def spec_transfer_id_def Let_def)

lemma map_fst_base: "map fst (spec_base_payload nav ctx eventType bankId page) = payload_fields"
  by (simp add: spec_base_payload_def payload_fields_def Let_def)

lemma object_assign_base:
  "object_assign [] [spec_base_payload nav ctx eventType bankId page, []] =
     spec_base_payload nav ctx eventType bankId page"
  by (simp add: object_assign_def spec_base_payload_def Let_def)

lemma buildPayload_None:
  "buildPayload nav ctx eventType bankId page None = Inr (spec_base_payload nav ctx eventType bankId page)"
  by (simp add: buildPayload_closed object_assign_base)

lemma map_of_rev_spec_base_payload:
  "map_of (rev (spec_base_payload nav ctx eventType bankId page)) = map_of (spec_base_payload nav ctx eventType bankId page)"
  by (rule map_of_rev_distinct) (simp add: map_fst_base payload_fields_def)

text \<open>
  Claim C8. For every context, also \<^verbatim>\<open>null\<close> or \<^verbatim>\<open>undefined\<close>, and every
  telemetry call, \<^verbatim>\<open>buildPayload\<close> returns a payload and does not throw. Without
  extra fields the payload is the base record, whose keys are exactly the
  fifteen documented fields in order. With extra fields every documented field
  is still present, and a key of the extra map overrides the base value (within
  the extra map the later entry wins). When the source of a field is absent
  (falsy), the field takes its default: \<^verbatim>\<open>transfer_payload\<close>, \<^verbatim>\<open>inline_parsed\<close>,
  \<^verbatim>\<open>inline_option\<close> and \<^verbatim>\<open>initDataUnsafe\<close> the empty object,
  \<^verbatim>\<open>inline_creator_tg_user_id\<close> \<^verbatim>\<open>null\<close>, \<^verbatim>\<open>inline_generated_at\<close>, \<^verbatim>\<open>initData\<close> and
  \<^verbatim>\<open>bank_id\<close> the empty string.
\<close>

theorem payload_fields_and_defaults:
  "buildPayload nav ctx eventType bankId page None = Inr (spec_base_payload nav ctx eventType bankId page)
   \<and> buildPayload nav ctx eventType bankId page extra =
       Inr (object_assign [] [spec_base_payload nav ctx eventType bankId page, extra_fields extra])
   \<and> map fst (spec_base_payload nav ctx eventType bankId page) = payload_fields
   \<and> set payload_fields \<subseteq>
       fst ` set (object_assign [] [spec_base_payload nav ctx eventType bankId page, extra_fields extra])
   \<and> map_of (object_assign [] [spec_base_payload nav ctx eventType bankId page, extra_fields extra]) k =
       (case map_of (rev (extra_fields extra)) k of
          Some v \<Rightarrow> Some v
        | None \<Rightarrow> map_of (spec_base_payload nav ctx eventType bankId page) k)
   \<and> (\<not> truthy (field ctx ''transferPayload'') \<longrightarrow>
        obj_get (spec_base_payload nav ctx eventType bankId page) ''transfer_payload'' = JObj [])
   \<and> (\<not> truthy (field (inline_payload ctx) ''creator_tg_user_id'') \<longrightarrow>
        obj_get (spec_base_payload nav ctx eventType bankId page) ''inline_creator_tg_user_id'' = JNull)
   \<and> (\<not> truthy (field (inline_payload ctx) ''generated_at'') \<longrightarrow>
        obj_get (spec_base_payload nav ctx eventType bankId page) ''inline_generated_at'' = JStr [])
   \<and> (\<not> truthy (field (inline_payload ctx) ''parsed'') \<longrightarrow>
        obj_get (spec_base_payload nav ctx eventType bankId page) ''inline_parsed'' = JObj [])
   \<and> (\<not> truthy (field (inline_payload ctx) ''option'') \<longrightarrow>
        obj_get (spec_base_payload nav ctx eventType bankId page) ''inline_option'' = JObj [])
   \<and> (\<not> truthy (field ctx ''initData'') \<longrightarrow>
        obj_get (spec_base_payload nav ctx eventType bankId page) ''initData'' = JStr [])
   \<and> (\<not> truthy (field ctx ''initDataUnsafe'') \<longrightarrow>
        obj_get (spec_base_payload nav ctx eventType bankId page) ''initDataUnsafe'' = JObj [])
   \<and> (\<not> truthy bankId \<longrightarrow>
        obj_get (spec_base_payload nav ctx eventType bankId page) ''bank_id'' = JStr [])"
proof -
  let ?base = "spec_base_payload nav ctx eventType bankId page"
  have keys: "set payload_fields \<subseteq> fst ` set (object_assign [] [?base, extra_fields extra])"
    using object_assign_keys [of ?base "extra_fields extra"] map_fst_base [of nav ctx eventType bankId page]
    by (metis set_map)
  have look: "map_of (object_assign [] [?base, extra_fields extra]) k =
       (case map_of (rev (extra_fields extra)) k of Some v \<Rightarrow> Some v | None \<Rightarrow> map_of ?base k)"
    by (simp only: object_assign_lookup map_of_rev_spec_base_payload)
  have closed: "buildPayload nav ctx eventType bankId page extra =
       Inr (object_assign [] [?base, extra_fields extra])"
    by (simp add: buildPayload_closed extra_fields_def)
  have defaults:
    "obj_get ?base ''transfer_payload'' = js_or (field ctx ''transferPayload'') (JObj [])"
    "obj_get ?base ''inline_creator_tg_user_id'' = js_or (field (inline_payload ctx) ''creator_tg_user_id'') JNull"
    "obj_get ?base ''inline_generated_at'' = js_or (field (inline_payload ctx) ''generated_at'') (JStr [])"
    "obj_get ?base ''inline_parsed'' = js_or (field (inline_payload ctx) ''parsed'') (JObj [])"
    "obj_get ?base ''inline_option'' = js_or (field (inline_payload ctx) ''option'') (JObj [])"
    "obj_get ?base ''initData'' = js_or (field ctx ''initData'') (JStr [])"
    "obj_get ?base ''initDataUnsafe'' = js_or (field ctx ''initDataUnsafe'') (JObj [])"
    "obj_get ?base ''bank_id'' = js_or bankId (JStr [])"
    by (simp_all add: spec_base_payload_def obj_get_def Let_def inline_payload_def)
  show ?thesis
    using keys look closed
    by (simp add: buildPayload_None map_fst_base defaults js_or_falsy)
qed

text \<open>
  The theorem at a \<^verbatim>\<open>null\<close> context: all eight defaults, and an extra
  \<^verbatim>\<open>bank_id\<close> that overrides the base one.
\<close>

theorem payload_fields_and_defaults_witness:
  "obj_get (spec_base_payload example_browser JNull (JStr ''webapp_open'') (JStr []) (JStr ''miniapp'')) ''transfer_payload'' = JObj []
   \<and> obj_get (spec_base_payload example_browser JNull (JStr ''webapp_open'') (JStr []) (JStr ''miniapp'')) ''inline_creator_tg_user_id'' = JNull
   \<and> obj_get (spec_base_payload example_browser JNull (JStr ''webapp_open'') (JStr []) (JStr ''miniapp'')) ''inline_generated_at'' = JStr []
   \<and> obj_get (spec_base_payload example_browser JNull (JStr ''webapp_open'') (JStr []) (JStr ''miniapp'')) ''inline_parsed'' = JObj []
   \<and> obj_get (spec_base_payload example_browser JNull (JStr ''webapp_open'') (JStr []) (JStr ''miniapp'')) ''inline_option'' = JObj []
   \<and> obj_get (spec_base_payload example_browser JNull (JStr ''webapp_open'') (JStr []) (JStr ''miniapp'')) ''initData'' = JStr []
   \<and> obj_get (spec_base_payload example_browser JNull (JStr ''webapp_open'') (JStr []) (JStr ''miniapp'')) ''initDataUnsafe'' = JObj []
   \<and> obj_get (spec_base_payload example_browser JNull (JStr ''webapp_open'') (JStr []) (JStr ''miniapp'')) ''bank_id'' = JStr []
   \<and> map_of (object_assign [] [spec_base_payload example_browser JNull (JStr ''webapp_open'') (JStr []) (JStr ''miniapp''),
                                [(''bank_id'', JStr ''vtb'')]]) ''bank_id'' = Some (JStr ''vtb'')"
  using payload_fields_and_defaults [of example_browser JNull "JStr ''webapp_open''" "JStr []" "JStr ''miniapp''"
          "Some [(''bank_id'', JStr ''vtb'')]" "''bank_id''"]
  by (simp add: field_def inline_payload_def extra_fields_def)

text \<open>
  Claim C7. In the payload of every event (built without extra fields, as the
  three operations do, and so in every payload they post), \<^verbatim>\<open>transfer_id\<close> is
  the context's start parameter when that is non-empty, otherwise
  \<^verbatim>\<open>initDataUnsafe.start_param\<close> when present and non-empty, otherwise the empty
  string.
\<close>

theorem transfer_id_resolution:
  "(\<exists>p. buildPayload nav ctx eventType bankId page None = Inr p
        \<and> obj_get p ''transfer_id'' = spec_transfer_id ctx)
   \<and> (\<forall>u p. HttpPost u p \<in> set (fst (sendWebAppOpen base nav net ctx)) \<longrightarrow>
          obj_get p ''transfer_id'' = spec_transfer_id ctx)
   \<and> (\<forall>u p. HttpPost u p \<in> set (fst (sendBankClick base nav net ctx bankId)) \<longrightarrow>
          obj_get p ''transfer_id'' = spec_transfer_id ctx)
   \<and> (\<forall>u p. HttpPost u p \<in> set (fst (sendRedirectEvent base nav net ctx bankId eventType pageOverride)) \<longrightarrow>
          obj_get p ''transfer_id'' = spec_transfer_id ctx)"
proof -
  have tid: "\<And>e b pg. obj_get (spec_base_payload nav ctx e b pg) ''transfer_id'' = spec_transfer_id ctx"
    by (simp add: spec_base_payload_def obj_get_def Let_def)
  have post: "\<And>u p body. HttpPost u p \<in> set (fst (safePost base net body)) \<Longrightarrow> p = body"
    by (auto simp: safePost_def start_fetch_def catch_io_def split: option.splits if_splits)
  have send: "\<And>x. then_io (lift_exn (Inr x)) (safePost base net) = safePost base net x"
    by (simp add: then_io_def lift_exn_def split: prod.splits)
  show ?thesis
    unfolding sendWebAppOpen_def sendBankClick_def sendRedirectEvent_def buildPayload_None send
    using tid post by blast
qed

text \<open>
  The theorem where the start parameter is empty and Telegram's
  \<^verbatim>\<open>start_param\<close> is not: the posted payload carries the latter.
\<close>

theorem transfer_id_resolution_witness:
  "HttpPost API_BASE_URL
     (spec_base_payload example_browser example_context (JStr ''redirect_attempt'') (JStr ''vtb'') (JStr ''redirect''))
     \<in> set (fst (sendRedirectEvent (Some API_BASE_URL) example_browser example_network example_context
                   (JStr ''vtb'') (JStr ''redirect_attempt'') JUndefined))
   \<and> obj_get (spec_base_payload example_browser example_context (JStr ''redirect_attempt'') (JStr ''vtb'') (JStr ''redirect''))
         ''transfer_id'' = JStr ''tg42''"
proof -
  have posted: "HttpPost API_BASE_URL
     (spec_base_payload example_browser example_context (JStr ''redirect_attempt'') (JStr ''vtb'') (JStr ''redirect''))
     \<in> set (fst (sendRedirectEvent (Some API_BASE_URL) example_browser example_network example_context
                   (JStr ''vtb'') (JStr ''redirect_attempt'') JUndefined))"
    by (simp add: sendRedirectEvent_def buildPayload_None then_io_def lift_exn_def safePost_def
          start_fetch_def catch_io_def API_BASE_URL_def example_network_def js_or_def)
  have "spec_transfer_id example_context = JStr ''tg42''"
    by (simp add: spec_transfer_id_def example_context_def field_def obj_get_def)
  with posted transfer_id_resolution [where nav = example_browser and ctx = example_context
      and base = "Some API_BASE_URL" and net = example_network and bankId = "JStr ''vtb''"
      and eventType = "JStr ''redirect_attempt''" and pageOverride = JUndefined]
  show ?thesis by metis
qed

section \<open>Sending never throws\<close>

lemma safePost_returns: "snd (safePost base net body) = Inr ()"
  by (simp add: safePost_def start_fetch_def catch_io_def split: option.splits)

lemma safePost_effects:
  "fst (safePost base net body) =
     (if url_missing base then [ConsoleDebug ApiNoBaseUrl]
      else if stringify_throws net \<or> fetch_throws net then [ConsoleDebug ApiException]
      else [HttpPost (case base of Some url \<Rightarrow> url | None \<Rightarrow> []) body])"
  by (cases base) (simp_all add: safePost_def start_fetch_def catch_io_def)

lemma send_payload: "then_io (lift_exn (Inr x)) (safePost base net) = safePost base net x"
  by (simp add: then_io_def lift_exn_def split: prod.splits)

lemma safePost_settled_cases:
  "safePost_settled base net =
     (if url_missing base \<or> stringify_throws net \<or> fetch_throws net then None
      else Some (if fetch_rejects net then [ConsoleDebug ApiSendFailed] else [],
                 Inr (if fetch_rejects net then JUndefined else JNull)))"
  by (simp add: safePost_settled_def catch_io_def then_io_def)

text \<open>
  Claim C5. Each of \<^verbatim>\<open>sendWebAppOpen\<close>, \<^verbatim>\<open>sendBankClick\<close> and
  \<^verbatim>\<open>sendRedirectEvent\<close> returns normally for every context and every behaviour
  of the network layer. With no endpoint configured (absent or empty) the only
  effect is one debug line and no request is started. When serialization or
  the call of \<^verbatim>\<open>fetch\<close> throws, the exception is caught and the only effect is
  one debug line. Otherwise exactly one POST is started, and the promise chain
  left behind is fulfilled in either case: a rejected request only writes a
  debug line.
\<close>

theorem telemetry_never_throws:
  "list_all (\<lambda>call. snd call = Inr ()) (telemetry_calls base nav net ctx bankId eventType pageOverride)
   \<and> (url_missing base \<longrightarrow>
        list_all (\<lambda>call. fst call = [ConsoleDebug ApiNoBaseUrl])
          (telemetry_calls base nav net ctx bankId eventType pageOverride)
        \<and> safePost_settled base net = None)
   \<and> (\<not> url_missing base \<and> (stringify_throws net \<or> fetch_throws net) \<longrightarrow>
        list_all (\<lambda>call. fst call = [ConsoleDebug ApiException])
          (telemetry_calls base nav net ctx bankId eventType pageOverride)
        \<and> safePost_settled base net = None)
   \<and> (\<not> url_missing base \<and> \<not> stringify_throws net \<and> \<not> fetch_throws net \<longrightarrow>
        list_all (\<lambda>call. \<exists>url payload. fst call = [HttpPost url payload])
          (telemetry_calls base nav net ctx bankId eventType pageOverride)
        \<and> safePost_settled base net =
            Some (if fetch_rejects net then [ConsoleDebug ApiSendFailed] else [],
                  Inr (if fetch_rejects net then JUndefined else JNull)))"
  by (simp add: telemetry_calls_def sendWebAppOpen_def sendBankClick_def sendRedirectEvent_def
        buildPayload_None send_payload safePost_returns safePost_effects safePost_settled_cases)

text \<open>
  The theorem with no endpoint, with a serialization error, and with a request
  that the network rejects.
\<close>

theorem telemetry_never_throws_witness:
  "snd (sendBankClick None example_browser example_network JNull (JStr ''vtb'')) = Inr ()
   \<and> fst (sendBankClick None example_browser example_network JNull (JStr ''vtb'')) = [ConsoleDebug ApiNoBaseUrl]
   \<and> safePost_settled None example_network = None
   \<and> fst (sendWebAppOpen (Some API_BASE_URL) example_browser
             \<lparr>stringify_throws = True, fetch_throws = False, fetch_rejects = False\<rparr> JUndefined) = [ConsoleDebug ApiException]
   \<and> safePost_settled (Some API_BASE_URL) example_network = Some ([ConsoleDebug ApiSendFailed], Inr JUndefined)"
  using telemetry_never_throws [of None example_browser example_network JNull "JStr ''vtb''" JUndefined JUndefined]
    telemetry_never_throws [of "Some API_BASE_URL" example_browser
       "\<lparr>stringify_throws = True, fetch_throws = False, fetch_rejects = False\<rparr>" JUndefined JUndefined JUndefined JUndefined]
    telemetry_never_throws [of "Some API_BASE_URL" example_browser example_network JUndefined JUndefined JUndefined JUndefined]
  by (simp add: telemetry_calls_def API_BASE_URL_def example_network_def)

section \<open>The bank directory\<close>

lemma loadBanks_cases:
  "snd (loadBanks pathname answer) =
     (case answer of
        Inl e \<Rightarrow> Inr fallback_banks
      | Inr r \<Rightarrow> if ok r then (case json r of Inl e \<Rightarrow> Inr fallback_banks | Inr bs \<Rightarrow> Inr bs)
                 else Inr fallback_banks)"
  by (simp add: loadBanks_def catch_io_def then_io_def split: sum.splits)

lemma fallback_banks_ids: "map id' fallback_banks = fallback_ids"
  by (simp add: fallback_banks_def fallback_ids_def)

lemma fallback_banks_populated:
  "list_all (\<lambda>b. id' b \<noteq> [] \<and> title b \<noteq> [] \<and> fallback_url b \<noteq> []) fallback_banks"
  by (simp add: fallback_banks_def)

lemma fallback_banks_length: "length fallback_banks = 11"
proof -
  have "length fallback_banks = length (map id' fallback_banks)" by simp
  also have "\<dots> = 11" by (simp only: fallback_banks_ids) (simp add: fallback_ids_def)
  finally show ?thesis .
qed

text \<open>
  Claim C1. The promise of \<^verbatim>\<open>loadBanks()\<close> is fulfilled for every answer of the
  request. When the request fails (network error, status outside 2xx, body
  that does not parse), it is fulfilled with the built-in list after one debug
  line. That list is non-empty, has at least ten descriptors (the eleven ids
  listed, all different), and every descriptor has a non-empty id, title and
  fallback URL.
\<close>

theorem loadBanks_fallback:
  "(\<exists>banks. snd (loadBanks pathname answer) = Inr banks)
   \<and> (directory_failure answer \<longrightarrow>
        loadBanks pathname answer =
          ([HttpGet (configPath pathname), ConsoleDebug BankLoaderFallback], Inr fallback_banks))
   \<and> fallback_banks \<noteq> []
   \<and> 10 \<le> length fallback_banks
   \<and> map id' fallback_banks = fallback_ids
   \<and> distinct fallback_ids
   \<and> list_all (\<lambda>b. id' b \<noteq> [] \<and> title b \<noteq> [] \<and> fallback_url b \<noteq> []) fallback_banks"
proof -
  have never_rejects: "\<exists>banks. snd (loadBanks pathname answer) = Inr banks"
    by (simp add: loadBanks_cases split: sum.splits)
  have on_failure: "directory_failure answer \<longrightarrow>
        loadBanks pathname answer =
          ([HttpGet (configPath pathname), ConsoleDebug BankLoaderFallback], Inr fallback_banks)"
    by (auto simp: directory_failure_def loadBanks_def catch_io_def then_io_def split: sum.splits)
  have nonempty: "fallback_banks \<noteq> []" "10 \<le> length fallback_banks"
    using fallback_banks_length by auto
  have ids: "distinct fallback_ids"
    by (simp add: fallback_ids_def)
  from never_rejects on_failure nonempty ids fallback_banks_ids fallback_banks_populated
  show ?thesis by blast
qed

text \<open>The theorem at a network error, a failing status and an unparsable body.\<close>

theorem loadBanks_fallback_witness:
  "directory_failure (Inl NetworkFailure)
   \<and> directory_failure (Inr \<lparr>ok = False, json = Inr []\<rparr>)
   \<and> directory_failure (Inr \<lparr>ok = True, json = Inl SyntaxError\<rparr>)
   \<and> snd (loadBanks ''/redirect/index.html'' (Inl NetworkFailure)) = Inr fallback_banks
   \<and> snd (loadBanks ''/redirect/index.html'' (Inr \<lparr>ok = False, json = Inr []\<rparr>)) = Inr fallback_banks
   \<and> snd (loadBanks ''/index.html'' (Inr \<lparr>ok = True, json = Inl SyntaxError\<rparr>)) = Inr fallback_banks"
proof -
  have f: "directory_failure (Inl NetworkFailure)"
      "directory_failure (Inr \<lparr>ok = False, json = Inr []\<rparr>)"
      "directory_failure (Inr \<lparr>ok = True, json = Inl SyntaxError\<rparr>)"
    by (simp_all add: directory_failure_def)
  with loadBanks_fallback [of "''/redirect/index.html''" "Inl NetworkFailure"]
       loadBanks_fallback [of "''/redirect/index.html''" "Inr \<lparr>ok = False, json = Inr []\<rparr>"]
       loadBanks_fallback [of "''/index.html''" "Inr \<lparr>ok = True, json = Inl SyntaxError\<rparr>"]
  show ?thesis by simp
qed

section \<open>Selecting the bank\<close>

lemma find_first:
  "find P xs = Some x \<Longrightarrow> x \<in> set xs \<and> P x \<and> x = hd (filter P xs)"
  by (induction xs) (auto split: if_splits)

lemma find_none: "find P xs = None \<longleftrightarrow> (\<forall>x\<in>set xs. \<not> P x)"
  by (induction xs) auto

text \<open>
  Claim C2. For every directory and every \<^verbatim>\<open>bank_id\<close> the \<^verbatim>\<open>then\<close> handler works
  on this descriptor: the (first) one of the directory whose id equals
  \<^verbatim>\<open>bank_id\<close> if there is one; otherwise the first descriptor of a non-empty
  directory; otherwise a made-up descriptor whose id is \<^verbatim>\<open>bank_id\<close>, or
  \<^verbatim>\<open>unknown\<close> when \<^verbatim>\<open>bank_id\<close> is empty, with a fixed non-empty title, an
  empty deep link and the non-empty fallback URL \<^verbatim>\<open>https://www.google.com\<close>.
\<close>

theorem targetBank_selection:
  "((\<exists>b\<in>set banks. id' b = bankId) \<longrightarrow>
       targetBank bankId banks \<in> set banks
     \<and> id' (targetBank bankId banks) = bankId
     \<and> targetBank bankId banks = hd (filter (\<lambda>b. id' b = bankId) banks))
   \<and> ((\<forall>b\<in>set banks. id' b \<noteq> bankId) \<and> banks \<noteq> [] \<longrightarrow> targetBank bankId banks = hd banks)
   \<and> (banks = [] \<longrightarrow>
         targetBank bankId banks = fallbackBank bankId
       \<and> id' (fallbackBank bankId) = (if bankId \<noteq> [] then bankId else ''unknown'')
       \<and> title (fallbackBank bankId) = title (fallbackBank [])
       \<and> title (fallbackBank bankId) \<noteq> []
       \<and> deeplink (fallbackBank bankId) = []
       \<and> fallback_url (fallbackBank bankId) = ''https://www.google.com''
       \<and> fallback_url (fallbackBank bankId) \<noteq> [])
   \<and> then_handler throws bankId banks s =
       tryOpenBank throws (targetBank bankId banks) (updateUi (targetBank bankId banks) s)"
proof -
  have found: "(\<exists>b\<in>set banks. id' b = bankId) \<longrightarrow>
       targetBank bankId banks \<in> set banks
     \<and> id' (targetBank bankId banks) = bankId
     \<and> targetBank bankId banks = hd (filter (\<lambda>b. id' b = bankId) banks)"
  proof
    assume "\<exists>b\<in>set banks. id' b = bankId"
    then obtain b where b: "find (\<lambda>bank. id' bank = bankId) banks = Some b"
      using find_none [of "\<lambda>bank. id' bank = bankId" banks] by (cases "find (\<lambda>bank. id' bank = bankId) banks") auto
    then have "targetBank bankId banks = b" by (simp add: targetBank_def)
    with find_first [OF b] show "targetBank bankId banks \<in> set banks
     \<and> id' (targetBank bankId banks) = bankId
     \<and> targetBank bankId banks = hd (filter (\<lambda>b. id' b = bankId) banks)" by metis
  qed
  have first: "(\<forall>b\<in>set banks. id' b \<noteq> bankId) \<and> banks \<noteq> [] \<longrightarrow> targetBank bankId banks = hd banks"
    using find_none [of "\<lambda>bank. id' bank = bankId" banks]
    by (cases banks) (auto simp: targetBank_def)
  have synth: "banks = [] \<longrightarrow>
         targetBank bankId banks = fallbackBank bankId
       \<and> id' (fallbackBank bankId) = (if bankId \<noteq> [] then bankId else ''unknown'')
       \<and> title (fallbackBank bankId) = title (fallbackBank [])
       \<and> title (fallbackBank bankId) \<noteq> []
       \<and> deeplink (fallbackBank bankId) = []
       \<and> fallback_url (fallbackBank bankId) = ''https://www.google.com''
       \<and> fallback_url (fallbackBank bankId) \<noteq> []"
    by (simp add: targetBank_def fallbackBank_def)
  have handler: "then_handler throws bankId banks s =
       tryOpenBank throws (targetBank bankId banks) (updateUi (targetBank bankId banks) s)"
    by (simp add: then_handler_def)
  from found first synth handler show ?thesis by (intro conjI) assumption+
qed

text \<open>
  The theorem on a directory with \<^verbatim>\<open>vtb\<close> in second place, and on the empty
  directory.
\<close>

theorem targetBank_selection_witness:
  "targetBank ''vtb'' example_banks = example_banks ! 1
   \<and> targetBank ''doesnotexist'' example_banks = example_banks ! 0
   \<and> id' (targetBank ''doesnotexist'' []) = ''doesnotexist''
   \<and> id' (targetBank [] []) = ''unknown''
   \<and> fallback_url (targetBank [] []) = ''https://www.google.com''"
  using targetBank_selection [of example_banks "''vtb''"]
        targetBank_selection [of example_banks "''doesnotexist''"]
        targetBank_selection [of "[]" "''doesnotexist''"]
        targetBank_selection [of "[]" "[]"]
  by (simp add: example_banks_def)

section \<open>The redirect page, step by step\<close>

lemma emit_fields [simp]:
  "telegramContext (emit e s) = telegramContext s"
  "trace (emit e s) = trace s @ [e]"
  "timers (emit e s) = timers s"
  "next_timer (emit e s) = next_timer s"
  "blur_once (emit e s) = blur_once s"
  "click_listeners (emit e s) = click_listeners s"
  by (simp_all add: emit_def)

lemma switchToFallback_page:
  "snd (switchToFallback throws bank s) =
     s\<lparr>trace := trace s @ fallback_step (telegramContext s) bank\<rparr>"
  by (simp add: switchToFallback_def assign_href_def fallback_step_def emit_def Let_def)

lemma updateUi_fields [simp]:
  "telegramContext (updateUi bank s) = telegramContext s"
  "timers (updateUi bank s) = timers s"
  "next_timer (updateUi bank s) = next_timer s"
  "blur_once (updateUi bank s) = blur_once s"
  by (simp_all add: updateUi_def Let_def)

lemma updateUi_trace:
  "trace (updateUi bank s) =
     trace s @ [SetStatusText (status_prefix @ title bank @ status_suffix),
                SetFallbackHref (manual_link bank),
                AddClickListener (id' bank)]"
  by (simp add: updateUi_def Let_def manual_link_def)

lemma tryOpenBank_no_deeplink:
  "deeplink bank = [] \<Longrightarrow>
   snd (tryOpenBank throws bank s) =
     s\<lparr>trace := trace s @ SendRedirectEvent (telegramContext s) (id' bank) ''redirect_attempt'' #
                          fallback_step (telegramContext s) bank\<rparr>"
  by (simp add: tryOpenBank_def Let_def switchToFallback_page)

lemma tryOpenBank_deeplink:
  "deeplink bank \<noteq> [] \<Longrightarrow>
   snd (tryOpenBank throws bank s) =
     s\<lparr>trace := trace s @ deeplink_attempt (telegramContext s) (next_timer s) bank @
                  (if throws (deeplink bank)
                   then ConsoleDebug RedirectDeeplinkError # fallback_step (telegramContext s) bank
                   else []),
       timers := timers s @ [(next_timer s, bank)],
       next_timer := Suc (next_timer s),
       blur_once := blur_once s @ [next_timer s]\<rparr>"
  by (simp add: tryOpenBank_def Let_def assign_href_def switchToFallback_page deeplink_attempt_def)

lemma tryOpenBank_context: "telegramContext (snd (tryOpenBank throws bank s)) = telegramContext s"
  by (cases "deeplink bank = []") (simp_all add: tryOpenBank_no_deeplink tryOpenBank_deeplink)

lemma tryOpenBank_attempts:
  "\<exists>es. trace (snd (tryOpenBank throws bank s)) =
           trace s @ SendRedirectEvent (telegramContext s) (id' bank) ''redirect_attempt'' # es
        \<and> (deeplink bank \<noteq> [] \<longrightarrow> AssignHref (deeplink bank) \<in> set es)"
  by (cases "deeplink bank = []")
     (simp_all add: tryOpenBank_no_deeplink tryOpenBank_deeplink deeplink_attempt_def)

lemma fold_clearTimeout:
  "fold clearTimeout hs s =
     s\<lparr>trace := trace s @ map ClearTimeout hs,
       timers := filter (\<lambda>(h, b). h \<notin> set hs) (timers s)\<rparr>"
proof (induction hs arbitrary: s)
  case Nil
  show ?case by simp
next
  case (Cons h hs)
  have "filter (\<lambda>(h', b). h' \<notin> set hs) (filter (\<lambda>(h', b). h' \<noteq> h) (timers s)) =
        filter (\<lambda>(h', b). h' \<notin> set (h # hs)) (timers s)"
    by (auto simp: case_prod_unfold intro: filter_cong)
  moreover have "fold clearTimeout (h # hs) s = fold clearTimeout hs (clearTimeout h s)"
    by simp
  ultimately show ?case
    by (simp only: Cons.IH) (simp add: clearTimeout_def emit_def)
qed

lemma on_blur_page:
  "on_blur s =
     s\<lparr>trace := trace s @ map ClearTimeout (blur_once s),
       timers := filter (\<lambda>(h, b). h \<notin> set (blur_once s)) (timers s),
       blur_once := []\<rparr>"
  by (simp add: on_blur_def fold_clearTimeout)

lemma fold_click:
  "fold (\<lambda>bankId s'. emit (SendRedirectEvent (telegramContext s') bankId ''redirect_manual_click'') s') bs s =
     s\<lparr>trace := trace s @ map (\<lambda>b. SendRedirectEvent (telegramContext s) b ''redirect_manual_click'') bs\<rparr>"
  by (induction bs arbitrary: s) (simp_all add: emit_def)

lemma on_click_page:
  "on_click s =
     s\<lparr>trace := trace s @
         map (\<lambda>b. SendRedirectEvent (telegramContext s) b ''redirect_manual_click'') (click_listeners s)\<rparr>"
  by (simp add: on_click_def fold_click)

lemma on_timer_pending:
  "map_of (timers s) h = Some bank \<Longrightarrow>
   on_timer throws h s =
     s\<lparr>timers := filter (\<lambda>(h', b). h' \<noteq> h) (timers s),
       trace := trace s @ fallback_step (telegramContext s) bank\<rparr>"
  by (simp add: on_timer_def switchToFallback_page)

lemma on_timer_idle: "map_of (timers s) h = None \<Longrightarrow> on_timer throws h s = s"
  by (simp add: on_timer_def)

lemma run_Cons: "run throws (ev # events) s = run throws events (step throws ev s)"
  by (simp add: run_def)

lemma run_Nil: "run throws [] s = s"
  by (simp add: run_def)

lemma step_context: "telegramContext (step throws ev s) = telegramContext s"
proof (cases ev)
  case Blur
  then show ?thesis by (simp add: on_blur_page)
next
  case (TimerElapsed h)
  then show ?thesis
    by (cases "map_of (timers s) h") (simp_all add: on_timer_idle on_timer_pending)
next
  case ManualClick
  then show ?thesis by (simp add: on_click_page)
qed

lemma run_context: "telegramContext (run throws events s) = telegramContext s"
  by (induction events arbitrary: s) (simp_all add: run_Nil run_Cons step_context)

section \<open>Runs of events\<close>

lemma step_quiet:
  assumes "timers s = []"
  shows "timers (step throws ev s) = [] \<and>
         (\<exists>es. trace (step throws ev s) = trace s @ es \<and> list_all quiet es)"
proof (cases ev)
  case Blur
  have "list_all quiet (map ClearTimeout (blur_once s))"
    by (simp add: list_all_iff quiet_def)
  with assms Blur show ?thesis by (simp add: on_blur_page)
next
  case (TimerElapsed h)
  with assms show ?thesis by (simp add: on_timer_idle)
next
  case ManualClick
  have "list_all quiet
          (map (\<lambda>b. SendRedirectEvent (telegramContext s) b ''redirect_manual_click'') (click_listeners s))"
    by (simp add: list_all_iff quiet_def)
  with assms ManualClick show ?thesis by (simp add: on_click_page)
qed

lemma run_quiet:
  "timers s = [] \<Longrightarrow>
   timers (run throws events s) = [] \<and>
   (\<exists>es. trace (run throws events s) = trace s @ es \<and> list_all quiet es)"
proof (induction events arbitrary: s)
  case Nil
  then show ?case by (simp add: run_Nil)
next
  case (Cons ev events)
  from step_quiet [OF Cons.prems, of throws ev]
  obtain es where idle: "timers (step throws ev s) = []"
    and es: "trace (step throws ev s) = trace s @ es" "list_all quiet es"
    by blast
  from Cons.IH [OF idle]
  obtain es' where "timers (run throws events (step throws ev s)) = []"
    and es': "trace (run throws events (step throws ev s)) = trace (step throws ev s) @ es'"
             "list_all quiet es'"
    by blast
  then have "timers (run throws (ev # events) s) = []"
    and "trace (run throws (ev # events) s) = trace s @ (es @ es')"
    and "list_all quiet (es @ es')"
    using es by (simp_all add: run_Cons)
  then show ?case by blast
qed

lemma run_clicks:
  "only_clicks events \<Longrightarrow>
   timers (run throws events s) = timers s \<and>
   blur_once (run throws events s) = blur_once s \<and>
   (\<exists>es. trace (run throws events s) = trace s @ es \<and> list_all quiet es)"
proof (induction events arbitrary: s)
  case Nil
  then show ?case by (simp add: run_Nil)
next
  case (Cons ev events)
  then have ev: "ev = ManualClick" and rest: "only_clicks events"
    by (simp_all add: only_clicks_def)
  let ?es = "map (\<lambda>b. SendRedirectEvent (telegramContext s) b ''redirect_manual_click'') (click_listeners s)"
  have q: "list_all quiet ?es"
    by (simp add: list_all_iff quiet_def)
  from Cons.IH [OF rest, of "on_click s"]
  obtain es' where t: "timers (run throws events (on_click s)) = timers (on_click s)"
    and b: "blur_once (run throws events (on_click s)) = blur_once (on_click s)"
    and es': "trace (run throws events (on_click s)) = trace (on_click s) @ es'" "list_all quiet es'"
    by blast
  have "timers (run throws (ev # events) s) = timers s"
    using t by (simp add: run_Cons ev on_click_page)
  moreover have "blur_once (run throws (ev # events) s) = blur_once s"
    using b by (simp add: run_Cons ev on_click_page)
  moreover have "trace (run throws (ev # events) s) = trace s @ (?es @ es')"
    using es' by (simp add: run_Cons ev on_click_page)
  moreover have "list_all quiet (?es @ es')"
    using q es' by simp
  ultimately show ?case by blast
qed

lemma quiet_no_fallback_event: "list_all quiet es \<Longrightarrow> filter is_fallback_event es = []"
  by (induction es) (auto simp: quiet_def is_fallback_event_def split: effect.splits)

lemma step_stays:
  assumes "list_all (\<lambda>(h, b). fallback_url b = []) (timers s)"
  shows "list_all (\<lambda>(h, b). fallback_url b = []) (timers (step throws ev s)) \<and>
         filter is_navigation (trace (step throws ev s)) = filter is_navigation (trace s)"
proof (cases ev)
  case Blur
  with assms show ?thesis
    by (simp add: on_blur_page list_all_iff is_navigation_def)
next
  case (TimerElapsed h)
  show ?thesis
  proof (cases "map_of (timers s) h")
    case None
    with assms TimerElapsed show ?thesis by (simp add: on_timer_idle)
  next
    case (Some bank)
    then have "(h, bank) \<in> set (timers s)" by (rule map_of_SomeD)
    with assms have "fallback_url bank = []" by (auto simp: list_all_iff)
    with assms Some TimerElapsed show ?thesis
      by (simp add: on_timer_pending fallback_step_def is_navigation_def list_all_iff)
  qed
next
  case ManualClick
  with assms show ?thesis
    by (simp add: on_click_page is_navigation_def filter_empty_conv)
qed

lemma run_stays:
  "list_all (\<lambda>(h, b). fallback_url b = []) (timers s) \<Longrightarrow>
   filter is_navigation (trace (run throws events s)) = filter is_navigation (trace s)"
proof (induction events arbitrary: s)
  case Nil
  show ?case by (simp add: run_Nil)
next
  case (Cons ev events)
  from step_stays [OF Cons.prems, of throws ev] Cons.IH [of "step throws ev s"]
  show ?case by (simp add: run_Cons)
qed

lemma timer_fires:
  assumes "deeplink bank \<noteq> []" "timers s = []" "only_clicks events"
  shows "trace (step throws (TimerElapsed (next_timer s)) (run throws events (snd (tryOpenBank throws bank s))))
           = trace (run throws events (snd (tryOpenBank throws bank s))) @ fallback_step (telegramContext s) bank"
    and "timers (step throws (TimerElapsed (next_timer s)) (run throws events (snd (tryOpenBank throws bank s)))) = []"
proof -
  let ?s' = "snd (tryOpenBank throws bank s)"
  let ?r = "run throws events ?s'"
  have t: "timers ?r = [(next_timer s, bank)]"
    using run_clicks [OF assms(3), of throws ?s'] assms(1,2) by (simp add: tryOpenBank_deeplink)
  then have pending: "map_of (timers ?r) (next_timer s) = Some bank" by simp
  have c: "telegramContext ?r = telegramContext s"
    by (simp add: run_context tryOpenBank_context)
  show "trace (step throws (TimerElapsed (next_timer s)) ?r) = trace ?r @ fallback_step (telegramContext s) bank"
    by (simp add: on_timer_pending [OF pending] c)
  show "timers (step throws (TimerElapsed (next_timer s)) ?r) = []"
    by (simp add: on_timer_pending [OF pending] t)
qed

lemma blur_cancels:
  assumes "deeplink bank \<noteq> []" "timers s = []" "only_clicks before"
  shows "timers (step throws Blur (run throws before (snd (tryOpenBank throws bank s)))) = []"
    and "ClearTimeout (next_timer s) \<in>
           set (trace (step throws Blur (run throws before (snd (tryOpenBank throws bank s)))))"
    and "\<exists>es. trace (run throws after (step throws Blur (run throws before (snd (tryOpenBank throws bank s)))))
                 = trace (snd (tryOpenBank throws bank s)) @ es \<and> list_all quiet es"
proof -
  let ?s' = "snd (tryOpenBank throws bank s)"
  let ?r = "run throws before ?s'"
  let ?b = "step throws Blur ?r"
  from run_clicks [OF assms(3), of throws ?s']
  obtain es where t: "timers ?r = [(next_timer s, bank)]"
    and es: "trace ?r = trace ?s' @ es" "list_all quiet es"
    using assms(1,2) by (auto simp: tryOpenBank_deeplink)
  have bl: "next_timer s \<in> set (blur_once ?r)"
    using run_clicks [OF assms(3), of throws ?s'] assms(1) by (simp add: tryOpenBank_deeplink)
  show idle: "timers ?b = []"
    using t bl by (simp add: on_blur_page)
  show "ClearTimeout (next_timer s) \<in> set (trace ?b)"
    using bl by (simp add: on_blur_page)
  have q: "list_all quiet (map ClearTimeout (blur_once ?r))"
    by (simp add: list_all_iff quiet_def)
  from run_quiet [OF idle, of throws after]
  obtain es' where es': "trace (run throws after ?b) = trace ?b @ es'" "list_all quiet es'"
    by blast
  have "trace (run throws after ?b) = trace ?s' @ (es @ map ClearTimeout (blur_once ?r) @ es')"
    using es es' by (simp add: on_blur_page)
  moreover have "list_all quiet (es @ map ClearTimeout (blur_once ?r) @ es')"
    using es es' q by simp
  ultimately show "\<exists>es. trace (run throws after ?b) = trace ?s' @ es \<and> list_all quiet es"
    by blast
qed

lemma fresh_page_fields:
  "timers fresh_page = []" "next_timer fresh_page = 0" "blur_once fresh_page = []"
  "telegramContext fresh_page = [(''startParam'', JStr ''t1'')]"
  "trace fresh_page = [SendRedirectEvent [(''startParam'', JStr ''t1'')] ''vtb'' ''redirect_open'']"
  by (simp_all add: fresh_page_def on_ready_def query_get_def backfill_def obj_get_def js_or_def Let_def)

section \<open>The timer race\<close>

text \<open>
  Claim C3 as stated fails at two inputs. A descriptor with a deep link and an
  empty fallback URL: the timer is pending after the call and elapses with no
  focus loss, \<^verbatim>\<open>redirect_fallback\<close> is sent, and the only assignment of the
  address the page ever made is the deep link, so no navigation to the
  fallback URL occurred. A descriptor whose deep link the
  browser refuses with an exception: the focus is lost before the timer
  elapses and the timer is cancelled, yet the fallback URL was already
  assigned, so the fallback navigation was not suppressed.
\<close>

theorem timer_race_counterexample:
  "timers (snd (tryOpenBank never_throws bank_without_fallback fresh_page)) = [(0, bank_without_fallback)]
   \<and> filter is_fallback_event
       (trace (step never_throws (TimerElapsed 0)
                 (snd (tryOpenBank never_throws bank_without_fallback fresh_page))))
       = [SendRedirectEvent [(''startParam'', JStr ''t1'')] ''demo'' ''redirect_fallback'']
   \<and> filter is_navigation
     (trace (step never_throws (TimerElapsed 0)
               (snd (tryOpenBank never_throws bank_without_fallback fresh_page))))
     = [AssignHref ''demo://open'']
   \<and> timers (step (throws_on ''vtb://vtb.ru/i/'') Blur
                (snd (tryOpenBank (throws_on ''vtb://vtb.ru/i/'') bank_vtb fresh_page))) = []
   \<and> AssignHref (fallback_url bank_vtb) \<in>
       set (trace (step (throws_on ''vtb://vtb.ru/i/'') Blur
                    (snd (tryOpenBank (throws_on ''vtb://vtb.ru/i/'') bank_vtb fresh_page))))"
  by (simp add: tryOpenBank_deeplink on_timer_pending on_blur_page fresh_page_fields
        bank_without_fallback_def bank_vtb_def never_throws_def throws_on_def
        fallback_step_def deeplink_attempt_def is_navigation_def is_fallback_event_def)

text \<open>
  Claim C3, amended. For every descriptor: with an empty deep link
  \<^verbatim>\<open>tryOpenBank\<close> is the fallback step run at once, and no timer or listener
  is added. With a non-empty deep link it starts one timeout of 1100 ms for
  the descriptor and one once-only \<^verbatim>\<open>blur\<close> listener for that timeout, and
  assigns the deep link; when that assignment does not throw, nothing else
  happens in the call. From a page with no other timeout pending: when the
  timeout elapses with no focus loss before it (only clicks on the manual
  link), the fallback step runs, that is \<^verbatim>\<open>redirect_fallback\<close> is sent and the
  fallback URL is assigned if the descriptor has one, and the timeout is gone;
  when the focus is lost first, the timeout is cleared, and whatever happens
  afterwards adds nothing but cleared timeouts and click telemetry to what
  the call itself did, so the timeout never triggers the fallback step.
\<close>

theorem tryOpenBank_timer_race:
  "(deeplink bank = [] \<longrightarrow>
       tryOpenBank throws bank s =
         switchToFallback throws bank
           (emit (SendRedirectEvent (telegramContext s) (id' bank) ''redirect_attempt'') s)
     \<and> trace (snd (tryOpenBank throws bank s)) =
         trace s @ SendRedirectEvent (telegramContext s) (id' bank) ''redirect_attempt'' #
                   fallback_step (telegramContext s) bank
     \<and> timers (snd (tryOpenBank throws bank s)) = timers s
     \<and> blur_once (snd (tryOpenBank throws bank s)) = blur_once s)
   \<and> (deeplink bank \<noteq> [] \<longrightarrow>
       timers (snd (tryOpenBank throws bank s)) = timers s @ [(next_timer s, bank)]
     \<and> blur_once (snd (tryOpenBank throws bank s)) = blur_once s @ [next_timer s]
     \<and> take 4 (drop (length (trace s)) (trace (snd (tryOpenBank throws bank s)))) =
         [SendRedirectEvent (telegramContext s) (id' bank) ''redirect_attempt'',
          SetTimeout (next_timer s) 1100,
          AddBlurListener (next_timer s),
          AssignHref (deeplink bank)])
   \<and> (deeplink bank \<noteq> [] \<and> \<not> throws (deeplink bank) \<longrightarrow>
       trace (snd (tryOpenBank throws bank s)) =
         trace s @ deeplink_attempt (telegramContext s) (next_timer s) bank)
   \<and> (deeplink bank \<noteq> [] \<and> timers s = [] \<and> only_clicks before \<longrightarrow>
       trace (step throws (TimerElapsed (next_timer s))
                (run throws before (snd (tryOpenBank throws bank s)))) =
         trace (run throws before (snd (tryOpenBank throws bank s))) @
         SendRedirectEvent (telegramContext s) (id' bank) ''redirect_fallback'' #
         (if fallback_url bank \<noteq> [] then [AssignHref (fallback_url bank)] else [])
     \<and> timers (step throws (TimerElapsed (next_timer s))
                 (run throws before (snd (tryOpenBank throws bank s)))) = [])
   \<and> (deeplink bank \<noteq> [] \<and> timers s = [] \<and> only_clicks before \<longrightarrow>
       timers (step throws Blur (run throws before (snd (tryOpenBank throws bank s)))) = []
     \<and> ClearTimeout (next_timer s) \<in>
         set (trace (step throws Blur (run throws before (snd (tryOpenBank throws bank s)))))
     \<and> (\<exists>es. trace (run throws after
                       (step throws Blur (run throws before (snd (tryOpenBank throws bank s))))) =
                trace (snd (tryOpenBank throws bank s)) @ es
              \<and> list_all quiet es))"
proof -
  have direct: "deeplink bank = [] \<longrightarrow>
       tryOpenBank throws bank s =
         switchToFallback throws bank
           (emit (SendRedirectEvent (telegramContext s) (id' bank) ''redirect_attempt'') s)
     \<and> trace (snd (tryOpenBank throws bank s)) =
         trace s @ SendRedirectEvent (telegramContext s) (id' bank) ''redirect_attempt'' #
                   fallback_step (telegramContext s) bank
     \<and> timers (snd (tryOpenBank throws bank s)) = timers s
     \<and> blur_once (snd (tryOpenBank throws bank s)) = blur_once s"
    by (simp add: tryOpenBank_no_deeplink) (simp add: tryOpenBank_def)
  have started: "deeplink bank \<noteq> [] \<longrightarrow>
       timers (snd (tryOpenBank throws bank s)) = timers s @ [(next_timer s, bank)]
     \<and> blur_once (snd (tryOpenBank throws bank s)) = blur_once s @ [next_timer s]
     \<and> take 4 (drop (length (trace s)) (trace (snd (tryOpenBank throws bank s)))) =
         [SendRedirectEvent (telegramContext s) (id' bank) ''redirect_attempt'',
          SetTimeout (next_timer s) 1100,
          AddBlurListener (next_timer s),
          AssignHref (deeplink bank)]"
    by (simp add: tryOpenBank_deeplink deeplink_attempt_def)
  have plain: "deeplink bank \<noteq> [] \<and> \<not> throws (deeplink bank) \<longrightarrow>
       trace (snd (tryOpenBank throws bank s)) =
         trace s @ deeplink_attempt (telegramContext s) (next_timer s) bank"
    by (simp add: tryOpenBank_deeplink)
  have elapsed: "deeplink bank \<noteq> [] \<and> timers s = [] \<and> only_clicks before \<longrightarrow>
       trace (step throws (TimerElapsed (next_timer s))
                (run throws before (snd (tryOpenBank throws bank s)))) =
         trace (run throws before (snd (tryOpenBank throws bank s))) @
         SendRedirectEvent (telegramContext s) (id' bank) ''redirect_fallback'' #
         (if fallback_url bank \<noteq> [] then [AssignHref (fallback_url bank)] else [])
     \<and> timers (step throws (TimerElapsed (next_timer s))
                 (run throws before (snd (tryOpenBank throws bank s)))) = []"
    using timer_fires [of bank s before throws] by (simp only: fallback_step_def) blast
  have blurred: "deeplink bank \<noteq> [] \<and> timers s = [] \<and> only_clicks before \<longrightarrow>
       timers (step throws Blur (run throws before (snd (tryOpenBank throws bank s)))) = []
     \<and> ClearTimeout (next_timer s) \<in>
         set (trace (step throws Blur (run throws before (snd (tryOpenBank throws bank s)))))
     \<and> (\<exists>es. trace (run throws after
                       (step throws Blur (run throws before (snd (tryOpenBank throws bank s))))) =
                trace (snd (tryOpenBank throws bank s)) @ es
              \<and> list_all quiet es)"
    using blur_cancels(1,2) [of bank s before throws] blur_cancels(3) [of bank s before throws after]
    by blast
  from direct started plain elapsed blurred show ?thesis
    by (intro conjI) assumption+
qed

text \<open>
  The theorem on the \<^verbatim>\<open>vtb\<close> descriptor with one click before the timer or the
  focus loss, and on a descriptor without deep link.
\<close>

theorem tryOpenBank_timer_race_witness:
  "deeplink bank_vtb \<noteq> [] \<and> timers fresh_page = [] \<and> only_clicks [ManualClick]
   \<and> timers (snd (tryOpenBank never_throws bank_vtb fresh_page)) = [(0, bank_vtb)]
   \<and> trace (step never_throws (TimerElapsed 0)
               (run never_throws [ManualClick] (snd (tryOpenBank never_throws bank_vtb fresh_page)))) =
       trace (run never_throws [ManualClick] (snd (tryOpenBank never_throws bank_vtb fresh_page))) @
       [SendRedirectEvent [(''startParam'', JStr ''t1'')] ''vtb'' ''redirect_fallback'',
        AssignHref ''https://online.vtb.ru/login'']
   \<and> timers (step never_throws Blur
                (run never_throws [ManualClick] (snd (tryOpenBank never_throws bank_vtb fresh_page)))) = []
   \<and> deeplink (fallbackBank ''vtb'') = []
   \<and> timers (snd (tryOpenBank never_throws (fallbackBank ''vtb'') fresh_page)) = []"
proof -
  have h: "deeplink bank_vtb \<noteq> []" "timers fresh_page = []" "only_clicks [ManualClick]"
      "deeplink (fallbackBank ''vtb'') = []"
    by (simp_all add: bank_vtb_def fresh_page_fields only_clicks_def fallbackBank_def)
  have v: "id' bank_vtb = ''vtb''" "fallback_url bank_vtb = ''https://online.vtb.ru/login''"
    by (simp_all add: bank_vtb_def)
  note race = tryOpenBank_timer_race [of bank_vtb never_throws fresh_page "[ManualClick]" "[]"]
  note direct = tryOpenBank_timer_race [of "fallbackBank ''vtb''" never_throws fresh_page "[]" "[]"]
  from race h(1) have started:
    "timers (snd (tryOpenBank never_throws bank_vtb fresh_page)) =
       timers fresh_page @ [(next_timer fresh_page, bank_vtb)]"
    by blast
  from race h(1,2,3) have elapsed:
    "trace (step never_throws (TimerElapsed (next_timer fresh_page))
               (run never_throws [ManualClick] (snd (tryOpenBank never_throws bank_vtb fresh_page)))) =
       trace (run never_throws [ManualClick] (snd (tryOpenBank never_throws bank_vtb fresh_page))) @
       SendRedirectEvent (telegramContext fresh_page) (id' bank_vtb) ''redirect_fallback'' #
       (if fallback_url bank_vtb \<noteq> [] then [AssignHref (fallback_url bank_vtb)] else [])"
    by blast
  from race h(1,2,3) have blurred:
    "timers (step never_throws Blur
                (run never_throws [ManualClick] (snd (tryOpenBank never_throws bank_vtb fresh_page)))) = []"
    by blast
  from direct h(4) have immediate:
    "timers (snd (tryOpenBank never_throws (fallbackBank ''vtb'') fresh_page)) = timers fresh_page"
    by blast
  from h started elapsed blurred immediate show ?thesis
    by (simp add: fresh_page_fields v)
qed

section \<open>A deep link that throws\<close>

text \<open>
  What the call does when the assignment of the deep link throws: it goes on
  in the same call, writes a debug line, sends \<^verbatim>\<open>redirect_fallback\<close>, and then
  assigns the fallback URL if the descriptor has one. When the descriptor has
  no fallback URL (and no other timeout was pending), no assignment of the
  address follows, whatever events come. The timeout started before the
  assignment is still pending, though: the \<^verbatim>\<open>catch\<close> block does not clear it,
  as the \<^verbatim>\<open>blur\<close> listener would.
\<close>

lemma deeplink_throw_falls_back:
  "deeplink bank \<noteq> [] \<Longrightarrow> throws (deeplink bank) \<Longrightarrow>
     trace (snd (tryOpenBank throws bank s)) =
       trace s @
       [SendRedirectEvent (telegramContext s) (id' bank) ''redirect_attempt'',
        SetTimeout (next_timer s) 1100,
        AddBlurListener (next_timer s),
        AssignHref (deeplink bank),
        ConsoleDebug RedirectDeeplinkError,
        SendRedirectEvent (telegramContext s) (id' bank) ''redirect_fallback''] @
       (if fallback_url bank \<noteq> [] then [AssignHref (fallback_url bank)] else [])
   \<and> (fallback_url bank = [] \<and> timers s = [] \<longrightarrow>
        filter is_navigation (trace (run throws events (snd (tryOpenBank throws bank s)))) =
          filter is_navigation (trace s) @ [AssignHref (deeplink bank)])"
proof -
  assume d: "deeplink bank \<noteq> []" and t: "throws (deeplink bank)"
  have now: "trace (snd (tryOpenBank throws bank s)) =
       trace s @
       [SendRedirectEvent (telegramContext s) (id' bank) ''redirect_attempt'',
        SetTimeout (next_timer s) 1100,
        AddBlurListener (next_timer s),
        AssignHref (deeplink bank),
        ConsoleDebug RedirectDeeplinkError,
        SendRedirectEvent (telegramContext s) (id' bank) ''redirect_fallback''] @
       (if fallback_url bank \<noteq> [] then [AssignHref (fallback_url bank)] else [])"
    using d t by (simp add: tryOpenBank_deeplink deeplink_attempt_def fallback_step_def)
  have later: "fallback_url bank = [] \<and> timers s = [] \<longrightarrow>
        filter is_navigation (trace (run throws events (snd (tryOpenBank throws bank s)))) =
          filter is_navigation (trace s) @ [AssignHref (deeplink bank)]"
  proof
    assume a: "fallback_url bank = [] \<and> timers s = []"
    then have "list_all (\<lambda>(h, b). fallback_url b = []) (timers (snd (tryOpenBank throws bank s)))"
      using d by (simp add: tryOpenBank_deeplink)
    from run_stays [OF this, of throws events]
    show "filter is_navigation (trace (run throws events (snd (tryOpenBank throws bank s)))) =
          filter is_navigation (trace s) @ [AssignHref (deeplink bank)]"
      using a by (simp add: now is_navigation_def)
  qed
  from now later show ?thesis by (intro conjI) assumption+
qed

text \<open>
  The same on the \<^verbatim>\<open>vtb\<close> descriptor, and on a descriptor without fallback
  URL followed by the timer, a click and a focus loss.
\<close>

lemma deeplink_throw_falls_back_example:
  "deeplink bank_vtb \<noteq> [] \<and> throws_on ''vtb://vtb.ru/i/'' (deeplink bank_vtb)
   \<and> trace (snd (tryOpenBank (throws_on ''vtb://vtb.ru/i/'') bank_vtb fresh_page)) =
       [SendRedirectEvent [(''startParam'', JStr ''t1'')] ''vtb'' ''redirect_open'',
        SendRedirectEvent [(''startParam'', JStr ''t1'')] ''vtb'' ''redirect_attempt'',
        SetTimeout 0 1100,
        AddBlurListener 0,
        AssignHref ''vtb://vtb.ru/i/'',
        ConsoleDebug RedirectDeeplinkError,
        SendRedirectEvent [(''startParam'', JStr ''t1'')] ''vtb'' ''redirect_fallback'',
        AssignHref ''https://online.vtb.ru/login'']
   \<and> deeplink bank_without_fallback \<noteq> [] \<and> fallback_url bank_without_fallback = []
   \<and> filter is_navigation
         (trace (run (throws_on ''demo://open'') [TimerElapsed 0, ManualClick, Blur]
                   (snd (tryOpenBank (throws_on ''demo://open'') bank_without_fallback fresh_page)))) =
       [AssignHref ''demo://open'']"
proof -
  have h: "deeplink bank_vtb \<noteq> []" "throws_on ''vtb://vtb.ru/i/'' (deeplink bank_vtb)"
      "deeplink bank_without_fallback \<noteq> []" "throws_on ''demo://open'' (deeplink bank_without_fallback)"
      "fallback_url bank_without_fallback = []" "timers fresh_page = []"
    by (simp_all add: bank_vtb_def bank_without_fallback_def throws_on_def fresh_page_fields)
  have v: "id' bank_vtb = ''vtb''" "fallback_url bank_vtb = ''https://online.vtb.ru/login''"
      "deeplink bank_vtb = ''vtb://vtb.ru/i/''" "deeplink bank_without_fallback = ''demo://open''"
    by (simp_all add: bank_vtb_def bank_without_fallback_def)
  from deeplink_throw_falls_back [where bank = bank_vtb and throws = "throws_on ''vtb://vtb.ru/i/''"
         and s = fresh_page and events = "[]"]
       deeplink_throw_falls_back [where bank = bank_without_fallback and throws = "throws_on ''demo://open''"
         and s = fresh_page and events = "[TimerElapsed 0, ManualClick, Blur]"]
  show ?thesis
    using h by (simp add: fresh_page_fields v is_navigation_def)
qed

text \<open>
  Claim C6 says that after a deep link that throws the fallback step is run
  and that, when the descriptor has no fallback URL, nothing further happens
  by itself. The code does more. For a descriptor with the deep link
  \<^verbatim>\<open>demo://open\<close> and no fallback URL, in a browser that refuses that deep
  link: the call of \<^verbatim>\<open>tryOpenBank\<close> ends with one \<^verbatim>\<open>redirect_fallback\<close> event
  and leaves the timeout pending, and when the timeout elapses a second
  \<^verbatim>\<open>redirect_fallback\<close> event is sent.
\<close>

theorem deeplink_throw_second_fallback:
  "trace (snd (tryOpenBank (throws_on ''demo://open'') bank_without_fallback fresh_page)) =
     [SendRedirectEvent [(''startParam'', JStr ''t1'')] ''vtb'' ''redirect_open'',
      SendRedirectEvent [(''startParam'', JStr ''t1'')] ''demo'' ''redirect_attempt'',
      SetTimeout 0 1100,
      AddBlurListener 0,
      AssignHref ''demo://open'',
      ConsoleDebug RedirectDeeplinkError,
      SendRedirectEvent [(''startParam'', JStr ''t1'')] ''demo'' ''redirect_fallback'']
   \<and> timers (snd (tryOpenBank (throws_on ''demo://open'') bank_without_fallback fresh_page)) =
       [(0, bank_without_fallback)]
   \<and> trace (step (throws_on ''demo://open'') (TimerElapsed 0)
              (snd (tryOpenBank (throws_on ''demo://open'') bank_without_fallback fresh_page))) =
     [SendRedirectEvent [(''startParam'', JStr ''t1'')] ''vtb'' ''redirect_open'',
      SendRedirectEvent [(''startParam'', JStr ''t1'')] ''demo'' ''redirect_attempt'',
      SetTimeout 0 1100,
      AddBlurListener 0,
      AssignHref ''demo://open'',
      ConsoleDebug RedirectDeeplinkError,
      SendRedirectEvent [(''startParam'', JStr ''t1'')] ''demo'' ''redirect_fallback'',
      SendRedirectEvent [(''startParam'', JStr ''t1'')] ''demo'' ''redirect_fallback'']"
  by (simp add: tryOpenBank_deeplink on_timer_pending fresh_page_fields
        bank_without_fallback_def throws_on_def fallback_step_def deeplink_attempt_def)

lemma count_fallback_events:
  "length (filter is_fallback_event (fallback_step context bank)) = 1"
  by (simp add: fallback_step_def is_fallback_event_def)

text \<open>
  Claim C9 as stated fails for a descriptor without fallback URL: the deep
  link throws, nothing intervenes and the timeout elapses, so the fallback
  step has run twice and \<^verbatim>\<open>redirect_fallback\<close> was sent twice, yet the failed
  assignment of the deep link is the only assignment of the address: no
  fallback navigation was attempted, neither at once nor from the timer.
\<close>

theorem fallback_twice_counterexample:
  "deeplink bank_without_fallback \<noteq> []
   \<and> throws_on ''demo://open'' (deeplink bank_without_fallback)
   \<and> timers fresh_page = []
   \<and> only_clicks []
   \<and> length (filter is_fallback_event
         (trace (step (throws_on ''demo://open'') (TimerElapsed 0)
                   (run (throws_on ''demo://open'') []
                      (snd (tryOpenBank (throws_on ''demo://open'') bank_without_fallback fresh_page)))))) = 2
   \<and> filter is_navigation
         (trace (step (throws_on ''demo://open'') (TimerElapsed 0)
                   (run (throws_on ''demo://open'') []
                      (snd (tryOpenBank (throws_on ''demo://open'') bank_without_fallback fresh_page))))) =
       [AssignHref ''demo://open'']"
  by (simp add: tryOpenBank_deeplink on_timer_pending fresh_page_fields run_Nil only_clicks_def
        bank_without_fallback_def throws_on_def fallback_step_def deeplink_attempt_def
        is_fallback_event_def is_navigation_def)

text \<open>
  Claim C9, amended. When the assignment of the deep link throws, the timeout
  started before it stays pending. If then the timeout elapses with no focus
  loss before it (only clicks on the manual link), the fallback step has run
  twice: once in the call of \<^verbatim>\<open>tryOpenBank\<close> and once more from the timer, so
  \<^verbatim>\<open>redirect_fallback\<close> was sent two more times than before the call. Each
  run assigns the fallback URL right after the event when the descriptor has
  one, and consists of the event alone when it has none.
\<close>

theorem fallback_runs_twice:
  "deeplink bank \<noteq> [] \<Longrightarrow> throws (deeplink bank) \<Longrightarrow> timers s = [] \<Longrightarrow> only_clicks events \<Longrightarrow>
     timers (snd (tryOpenBank throws bank s)) = [(next_timer s, bank)]
   \<and> trace (snd (tryOpenBank throws bank s)) =
       trace s @ deeplink_attempt (telegramContext s) (next_timer s) bank @
       ConsoleDebug RedirectDeeplinkError # fallback_step (telegramContext s) bank
   \<and> trace (step throws (TimerElapsed (next_timer s)) (run throws events (snd (tryOpenBank throws bank s)))) =
       trace (run throws events (snd (tryOpenBank throws bank s))) @ fallback_step (telegramContext s) bank
   \<and> length (filter is_fallback_event
         (trace (step throws (TimerElapsed (next_timer s))
                   (run throws events (snd (tryOpenBank throws bank s)))))) =
       length (filter is_fallback_event (trace s)) + 2
   \<and> fallback_step (telegramContext s) bank =
       SendRedirectEvent (telegramContext s) (id' bank) ''redirect_fallback'' #
       (if fallback_url bank \<noteq> [] then [AssignHref (fallback_url bank)] else [])
   \<and> (fallback_url bank \<noteq> [] \<longrightarrow>
        fallback_step (telegramContext s) bank =
          [SendRedirectEvent (telegramContext s) (id' bank) ''redirect_fallback'',
           AssignHref (fallback_url bank)])
   \<and> (fallback_url bank = [] \<longrightarrow>
        fallback_step (telegramContext s) bank =
          [SendRedirectEvent (telegramContext s) (id' bank) ''redirect_fallback''])"
proof -
  assume d: "deeplink bank \<noteq> []" and t: "throws (deeplink bank)"
    and idle: "timers s = []" and clicks: "only_clicks events"
  let ?s' = "snd (tryOpenBank throws bank s)"
  let ?r = "run throws events ?s'"
  let ?f = "step throws (TimerElapsed (next_timer s)) ?r"
  have pending: "timers ?s' = [(next_timer s, bank)]"
    using d idle by (simp add: tryOpenBank_deeplink)
  have first: "trace ?s' =
       trace s @ deeplink_attempt (telegramContext s) (next_timer s) bank @
       ConsoleDebug RedirectDeeplinkError # fallback_step (telegramContext s) bank"
    using d t by (simp add: tryOpenBank_deeplink)
  have second: "trace ?f = trace ?r @ fallback_step (telegramContext s) bank"
    using timer_fires(1) [OF d idle clicks] .
  from run_clicks [OF clicks, of throws ?s']
  obtain es where es: "trace ?r = trace ?s' @ es" "list_all quiet es"
    by blast
  have "filter is_fallback_event (deeplink_attempt (telegramContext s) (next_timer s) bank) = []"
    by (simp add: deeplink_attempt_def is_fallback_event_def)
  moreover have "trace ?f =
       trace s @ deeplink_attempt (telegramContext s) (next_timer s) bank @
       ConsoleDebug RedirectDeeplinkError # fallback_step (telegramContext s) bank @ es @
       fallback_step (telegramContext s) bank"
    by (simp only: second es(1) first) simp
  ultimately have count: "length (filter is_fallback_event (trace ?f)) =
       length (filter is_fallback_event (trace s)) + 2"
    using es(2) by (simp add: quiet_no_fallback_event count_fallback_events is_fallback_event_def)
  have step: "fallback_step (telegramContext s) bank =
       SendRedirectEvent (telegramContext s) (id' bank) ''redirect_fallback'' #
       (if fallback_url bank \<noteq> [] then [AssignHref (fallback_url bank)] else [])"
    by (simp add: fallback_step_def)
  have with_url: "fallback_url bank \<noteq> [] \<longrightarrow>
        fallback_step (telegramContext s) bank =
          [SendRedirectEvent (telegramContext s) (id' bank) ''redirect_fallback'',
           AssignHref (fallback_url bank)]"
    by (simp add: fallback_step_def)
  have without_url: "fallback_url bank = [] \<longrightarrow>
        fallback_step (telegramContext s) bank =
          [SendRedirectEvent (telegramContext s) (id' bank) ''redirect_fallback'']"
    by (simp add: fallback_step_def)
  from pending first second count step with_url without_url show ?thesis
    by (intro conjI) assumption+
qed

text \<open>The theorem on the \<^verbatim>\<open>vtb\<close> descriptor: the whole trace, with both runs.\<close>

theorem fallback_runs_twice_witness:
  "deeplink bank_vtb \<noteq> [] \<and> throws_on ''vtb://vtb.ru/i/'' (deeplink bank_vtb)
   \<and> timers fresh_page = [] \<and> only_clicks []
   \<and> timers (snd (tryOpenBank (throws_on ''vtb://vtb.ru/i/'') bank_vtb fresh_page)) = [(0, bank_vtb)]
   \<and> trace (step (throws_on ''vtb://vtb.ru/i/'') (TimerElapsed 0)
              (run (throws_on ''vtb://vtb.ru/i/'') []
                 (snd (tryOpenBank (throws_on ''vtb://vtb.ru/i/'') bank_vtb fresh_page)))) =
       [SendRedirectEvent [(''startParam'', JStr ''t1'')] ''vtb'' ''redirect_open'',
        SendRedirectEvent [(''startParam'', JStr ''t1'')] ''vtb'' ''redirect_attempt'',
        SetTimeout 0 1100,
        AddBlurListener 0,
        AssignHref ''vtb://vtb.ru/i/'',
        ConsoleDebug RedirectDeeplinkError,
        SendRedirectEvent [(''startParam'', JStr ''t1'')] ''vtb'' ''redirect_fallback'',
        AssignHref ''https://online.vtb.ru/login'',
        SendRedirectEvent [(''startParam'', JStr ''t1'')] ''vtb'' ''redirect_fallback'',
        AssignHref ''https://online.vtb.ru/login'']"
proof -
  have h: "deeplink bank_vtb \<noteq> []" "throws_on ''vtb://vtb.ru/i/'' (deeplink bank_vtb)"
      "timers fresh_page = []" "only_clicks []"
    by (simp_all add: bank_vtb_def throws_on_def fresh_page_fields only_clicks_def)
  have v: "id' bank_vtb = ''vtb''" "fallback_url bank_vtb = ''https://online.vtb.ru/login''"
      "deeplink bank_vtb = ''vtb://vtb.ru/i/''"
    by (simp_all add: bank_vtb_def)
  from fallback_runs_twice [OF h(1) _ h(3,4), of "throws_on ''vtb://vtb.ru/i/''", OF h(2)] h
  show ?thesis
    by (simp add: fresh_page_fields v run_Nil deeplink_attempt_def)
qed

section \<open>The context object\<close>

lemma backfill_startParam:
  "obj_get (backfill context transferId) ''startParam'' =
     js_or (obj_get context ''startParam'') (JStr transferId)"
  by (simp add: backfill_def obj_get_def AList.update_conv')

lemma backfill_other:
  "k \<noteq> ''startParam'' \<Longrightarrow> map_of (backfill context transferId) k = map_of context k"
  by (simp add: backfill_def AList.update_conv')

lemma backfill_truthy:
  "truthy (obj_get context ''startParam'') \<Longrightarrow> backfill context transferId = context"
proof -
  assume t: "truthy (obj_get context ''startParam'')"
  then obtain v where v: "map_of context ''startParam'' = Some v"
    by (cases "map_of context ''startParam''") (simp_all add: obj_get_def)
  then have "obj_get context ''startParam'' = v" by (simp add: obj_get_def)
  with t v show ?thesis
    by (simp add: backfill_def js_or_def AList.update_triv)
qed

lemma then_handler_context: "telegramContext (snd (then_handler throws bankId banks s)) = telegramContext s"
  by (simp add: then_handler_def tryOpenBank_context)

lemma catch_handler_context: "telegramContext (snd (catch_handler throws bankId s)) = telegramContext s"
  by (simp add: catch_handler_def tryOpenBank_context)

lemma on_ready_context:
  "telegramContext (on_ready query context) = backfill context (query_get query ''transfer_id'')"
  by (simp add: on_ready_def Let_def)

lemma page_view_context:
  "telegramContext (page_view throws pathname query context answer) =
     backfill context (query_get query ''transfer_id'')"
proof -
  obtain effects r where l: "loadBanks pathname answer = (effects, r)"
    by (cases "loadBanks pathname answer")
  let ?s0 = "(on_ready query context)\<lparr>trace := trace (on_ready query context) @ effects\<rparr>"
  have c0: "telegramContext ?s0 = backfill context (query_get query ''transfer_id'')"
    by (simp add: on_ready_context)
  show ?thesis
  proof (cases r)
    case (Inl e)
    with l c0 show ?thesis
      by (simp add: page_view_def Let_def catch_handler_context)
  next
    case (Inr banks)
    obtain u s1 where th: "then_handler throws (query_get query ''bank_id'') banks ?s0 = (u, s1)"
      by (cases "then_handler throws (query_get query ''bank_id'') banks ?s0")
    then have "telegramContext s1 = telegramContext ?s0"
      using then_handler_context [of throws "query_get query ''bank_id''" banks ?s0] by simp
    with l Inr th c0 show ?thesis
      by (cases u) (simp_all add: page_view_def Let_def catch_handler_context)
  qed
qed

text \<open>
  Claim C4 as stated fails: with an empty start parameter in the context and
  \<^verbatim>\<open>transfer_id=abc\<close> in the query, the context object after the page view
  differs from the one the bridge supplied.
\<close>

theorem context_mutated_counterexample:
  "telegramContext (page_view never_throws ''/redirect/index.html''
       [(''transfer_id'', ''abc''), (''bank_id'', ''vtb'')]
       [(''initData'', JStr ''query_id=1''), (''startParam'', JStr [])]
       (Inl NetworkFailure))
   = [(''initData'', JStr ''query_id=1''), (''startParam'', JStr ''abc'')]
   \<and> [(''initData'', JStr ''query_id=1''), (''startParam'', JStr ''abc'')]
       \<noteq> [(''initData'', JStr ''query_id=1''), (''startParam'', JStr [])]"
  by (simp add: page_view_context backfill_def query_get_def obj_get_def js_or_def)

text \<open>
  Claim C4, amended. The page writes the context object in one place only:
  when the page is ready, \<^verbatim>\<open>startParam\<close> is assigned its own value if that is
  non-empty and the query's \<^verbatim>\<open>transfer_id\<close> otherwise. Every other field keeps
  its value, a context with a non-empty start parameter is left as it was, and
  nothing that happens later in the page view (selecting the bank, updating
  the page, the deep link, the fallback, timer, focus loss, clicks) changes
  the context again.
\<close>

theorem context_only_backfilled:
  "telegramContext (run throws events (page_view throws pathname query context answer)) =
     backfill context (query_get query ''transfer_id'')
   \<and> obj_get (backfill context transferId) ''startParam'' =
       (if truthy (obj_get context ''startParam'') then obj_get context ''startParam''
        else JStr transferId)
   \<and> (\<forall>k. k \<noteq> ''startParam'' \<longrightarrow> map_of (backfill context transferId) k = map_of context k)
   \<and> (truthy (obj_get context ''startParam'') \<longrightarrow> backfill context transferId = context)"
proof -
  have whole_view: "telegramContext (run throws events (page_view throws pathname query context answer)) =
      backfill context (query_get query ''transfer_id'')"
    by (simp only: run_context page_view_context)
  have written: "obj_get (backfill context transferId) ''startParam'' =
      (if truthy (obj_get context ''startParam'') then obj_get context ''startParam'' else JStr transferId)"
    by (simp add: backfill_startParam js_or_def)
  have others: "\<forall>k. k \<noteq> ''startParam'' \<longrightarrow> map_of (backfill context transferId) k = map_of context k"
    by (simp add: backfill_other)
  have kept: "truthy (obj_get context ''startParam'') \<longrightarrow> backfill context transferId = context"
    by (simp add: backfill_truthy)
  from whole_view written others kept show ?thesis
    by (intro conjI) assumption+
qed

text \<open>
  The theorem on a context with a start parameter, which stays as supplied
  through a whole page view, and on one without, where only \<^verbatim>\<open>startParam\<close>
  is added.
\<close>

theorem context_only_backfilled_witness:
  "telegramContext (run never_throws [ManualClick, TimerElapsed 0, Blur]
       (page_view never_throws ''/redirect/index.html'' [(''transfer_id'', ''abc'')]
          [(''startParam'', JStr ''tg42''), (''initData'', JStr ''query_id=1'')]
          (Inl NetworkFailure)))
   = [(''startParam'', JStr ''tg42''), (''initData'', JStr ''query_id=1'')]
   \<and> map_of (backfill [(''initData'', JStr ''query_id=1'')] ''abc'') ''initData'' = Some (JStr ''query_id=1'')
   \<and> obj_get (backfill [(''initData'', JStr ''query_id=1'')] ''abc'') ''startParam'' = JStr ''abc''"
  using context_only_backfilled [of never_throws "[ManualClick, TimerElapsed 0, Blur]" "''/redirect/index.html''"
          "[(''transfer_id'', ''abc'')]" "[(''startParam'', JStr ''tg42''), (''initData'', JStr ''query_id=1'')]"
          "Inl NetworkFailure" "''abc''"]
        context_only_backfilled [of never_throws "[]" "''/redirect/index.html''"
          "[]" "[(''initData'', JStr ''query_id=1'')]" "Inl NetworkFailure" "''abc''"]
  by (simp add: query_get_def obj_get_def)

section \<open>A missing bank id\<close>

lemma catch_handler_extends: "\<exists>es. trace (snd (catch_handler throws bankId s)) = trace s @ es"
proof -
  let ?s1 = "updateUi (fallbackBank bankId) (emit (ConsoleDebug RedirectLoadError) s)"
  from tryOpenBank_attempts [of throws "fallbackBank bankId" ?s1]
  obtain es where "trace (snd (tryOpenBank throws (fallbackBank bankId) ?s1)) =
      trace ?s1 @ SendRedirectEvent (telegramContext ?s1) (id' (fallbackBank bankId)) ''redirect_attempt'' # es"
    by blast
  then show ?thesis
    by (simp add: catch_handler_def updateUi_trace)
qed

lemma loadBanks_ok:
  "loadBanks pathname (Inr \<lparr>ok = True, json = Inr banks\<rparr>) = ([HttpGet (configPath pathname)], Inr banks)"
  by (simp add: loadBanks_def catch_io_def then_io_def)

lemma page_view_ok:
  "\<exists>es. trace (page_view throws pathname query context (Inr \<lparr>ok = True, json = Inr banks\<rparr>)) =
      trace (snd (then_handler throws (query_get query ''bank_id'') banks
                   ((on_ready query context)
                      \<lparr>trace := trace (on_ready query context) @ [HttpGet (configPath pathname)]\<rparr>))) @ es"
proof -
  let ?s0 = "(on_ready query context)\<lparr>trace := trace (on_ready query context) @ [HttpGet (configPath pathname)]\<rparr>"
  obtain u s1 where th: "then_handler throws (query_get query ''bank_id'') banks ?s0 = (u, s1)"
    by (cases "then_handler throws (query_get query ''bank_id'') banks ?s0")
  show ?thesis
  proof (cases u)
    case (Inl e)
    from catch_handler_extends [of throws "query_get query ''bank_id''" s1]
    show ?thesis using th Inl by (simp add: page_view_def Let_def loadBanks_ok)
  next
    case (Inr x)
    with th show ?thesis by (simp add: page_view_def Let_def loadBanks_ok)
  qed
qed

text \<open>
  Claim C10. When the query has no (or an empty) \<^verbatim>\<open>bank_id\<close>, the directory
  is non-empty and no descriptor has the empty id, the first descriptor of the
  directory is selected, not the made-up one: the \<^verbatim>\<open>then\<close> handler updates
  the page for it and calls \<^verbatim>\<open>tryOpenBank\<close> with it, so the page view sends
  \<^verbatim>\<open>redirect_attempt\<close> for its id and, when it has a deep link, assigns that
  deep link.
\<close>

theorem absent_bank_id_takes_first:
  assumes "query_get query ''bank_id'' = []" and "banks \<noteq> []" and "\<forall>b\<in>set banks. id' b \<noteq> []"
  shows "targetBank (query_get query ''bank_id'') banks = hd banks
   \<and> hd banks \<in> set banks
   \<and> then_handler throws (query_get query ''bank_id'') banks s =
       tryOpenBank throws (hd banks) (updateUi (hd banks) s)
   \<and> (\<exists>es. trace (page_view throws pathname query context (Inr \<lparr>ok = True, json = Inr banks\<rparr>)) =
            [SendRedirectEvent (backfill context (query_get query ''transfer_id'')) [] ''redirect_open'',
             HttpGet (configPath pathname),
             SetStatusText (status_prefix @ title (hd banks) @ status_suffix),
             SetFallbackHref (manual_link (hd banks)),
             AddClickListener (id' (hd banks)),
             SendRedirectEvent (backfill context (query_get query ''transfer_id'')) (id' (hd banks))
               ''redirect_attempt''] @ es
          \<and> (deeplink (hd banks) \<noteq> [] \<longrightarrow> AssignHref (deeplink (hd banks)) \<in> set es))"
proof -
  have none: "find (\<lambda>bank. id' bank = []) banks = None"
    using assms(3) by (simp add: find_none)
  with assms(1,2) have target: "targetBank (query_get query ''bank_id'') banks = hd banks"
    by (cases banks) (simp_all add: targetBank_def)
  have member: "hd banks \<in> set banks"
    using assms(2) by simp
  have handler: "then_handler throws (query_get query ''bank_id'') banks s =
       tryOpenBank throws (hd banks) (updateUi (hd banks) s)"
    by (simp add: then_handler_def target)
  let ?c = "backfill context (query_get query ''transfer_id'')"
  let ?s0 = "(on_ready query context)\<lparr>trace := trace (on_ready query context) @ [HttpGet (configPath pathname)]\<rparr>"
  have t0: "trace ?s0 = [SendRedirectEvent ?c [] ''redirect_open'', HttpGet (configPath pathname)]"
    and c0: "telegramContext ?s0 = ?c"
    using assms(1) by (simp_all add: on_ready_def Let_def)
  from tryOpenBank_attempts [of throws "hd banks" "updateUi (hd banks) ?s0"]
  obtain es where es: "trace (snd (tryOpenBank throws (hd banks) (updateUi (hd banks) ?s0))) =
        trace (updateUi (hd banks) ?s0) @
        SendRedirectEvent (telegramContext (updateUi (hd banks) ?s0)) (id' (hd banks)) ''redirect_attempt'' # es"
    and link: "deeplink (hd banks) \<noteq> [] \<longrightarrow> AssignHref (deeplink (hd banks)) \<in> set es"
    by blast
  from page_view_ok [of throws pathname query "context" banks]
  obtain es' where "trace (page_view throws pathname query context (Inr \<lparr>ok = True, json = Inr banks\<rparr>)) =
      trace (snd (then_handler throws (query_get query ''bank_id'') banks ?s0)) @ es'"
    by blast
  then have "trace (page_view throws pathname query context (Inr \<lparr>ok = True, json = Inr banks\<rparr>)) =
            [SendRedirectEvent ?c [] ''redirect_open'',
             HttpGet (configPath pathname),
             SetStatusText (status_prefix @ title (hd banks) @ status_suffix),
             SetFallbackHref (manual_link (hd banks)),
             AddClickListener (id' (hd banks)),
             SendRedirectEvent ?c (id' (hd banks)) ''redirect_attempt''] @ (es @ es')"
    using es by (simp add: then_handler_def target updateUi_trace t0 c0)
  moreover have "deeplink (hd banks) \<noteq> [] \<longrightarrow> AssignHref (deeplink (hd banks)) \<in> set (es @ es')"
    using link by simp
  ultimately have page: "\<exists>es. trace (page_view throws pathname query context (Inr \<lparr>ok = True, json = Inr banks\<rparr>)) =
            [SendRedirectEvent ?c [] ''redirect_open'',
             HttpGet (configPath pathname),
             SetStatusText (status_prefix @ title (hd banks) @ status_suffix),
             SetFallbackHref (manual_link (hd banks)),
             AddClickListener (id' (hd banks)),
             SendRedirectEvent ?c (id' (hd banks)) ''redirect_attempt''] @ es
          \<and> (deeplink (hd banks) \<noteq> [] \<longrightarrow> AssignHref (deeplink (hd banks)) \<in> set es)"
    by blast
  from target member handler page show ?thesis
    by (intro conjI) assumption+
qed

text \<open>The theorem on a query without \<^verbatim>\<open>bank_id\<close> and a directory of two.\<close>

theorem absent_bank_id_takes_first_witness:
  "query_get [(''transfer_id'', ''t1'')] ''bank_id'' = []
   \<and> example_banks \<noteq> []
   \<and> list_all (\<lambda>b. id' b \<noteq> []) example_banks
   \<and> id' (targetBank (query_get [(''transfer_id'', ''t1'')] ''bank_id'') example_banks) = ''alfabank''
   \<and> AssignHref ''alfabank://account'' \<in>
       set (trace (page_view never_throws ''/redirect/index.html'' [(''transfer_id'', ''t1'')] []
                     (Inr \<lparr>ok = True, json = Inr example_banks\<rparr>)))"
proof -
  have h: "query_get [(''transfer_id'', ''t1'')] ''bank_id'' = []" "example_banks \<noteq> []"
      "\<forall>b\<in>set example_banks. id' b \<noteq> []"
    by (simp_all add: query_get_def example_banks_def)
  have v: "id' (hd example_banks) = ''alfabank''" "deeplink (hd example_banks) = ''alfabank://account''"
    by (simp_all add: example_banks_def)
  from absent_bank_id_takes_first [OF h, of never_throws fresh_page "''/redirect/index.html''" "[]"]
  obtain es where "targetBank (query_get [(''transfer_id'', ''t1'')] ''bank_id'') example_banks = hd example_banks"
    and "\<exists>pre. trace (page_view never_throws ''/redirect/index.html'' [(''transfer_id'', ''t1'')] []
                     (Inr \<lparr>ok = True, json = Inr example_banks\<rparr>)) = pre @ es"
    and "deeplink (hd example_banks) \<noteq> [] \<longrightarrow> AssignHref (deeplink (hd example_banks)) \<in> set es"
    by blast
  with h(1,2) v show ?thesis
    by (auto simp: list_all_iff h(3))
qed

end
